theory Spec2Isabelle
  imports Complex_Main "HOL-Library.Word" "HOL-Library.Char_ord"
    "HOL-Library.List_Lexorder" "HOL-Library.Sublist"
begin

unbundle bit_operations_syntax

section \<open>Data model of the NVENC H.264 encoder element\<close>

text \<open>
  The development embeds \<^verbatim>\<open>sys/nvcodec/gstnvh264encoder.cpp\<close>. C integers keep
  their width: \<^verbatim>\<open>gint\<close> and \<^verbatim>\<open>guint\<close> are 32-bit words (read with \<open>sint\<close> where
  the source compares a \<^verbatim>\<open>gint\<close>), \<^verbatim>\<open>guint8\<close> is an 8-bit word. A \<^verbatim>\<open>gdouble\<close>
  property is kept as the real number it denotes.
\<close>

type_synonym gint = "32 word"
type_synonym guint = "32 word"
type_synonym guint8 = "8 word"

text \<open>
  Modelled from the spec: the enumerations \<^verbatim>\<open>GstNvEncoderPreset\<close> and
  \<^verbatim>\<open>GstNvEncoderRCMode\<close>, declared in the base-class header
  \<^verbatim>\<open>gstnvencoder.h\<close>, which is not part of the embedded sources. The spec speaks
  of a preset and of rate-control modes with a default and a constant-QP one.
  The enumerators this file names are constructors; any other enumerator is
  kept apart by its position.
\<close>

datatype GstNvEncoderPreset =
    GST_NV_ENCODER_PRESET_DEFAULT
  | GST_NV_ENCODER_PRESET_OTHER nat

datatype GstNvEncoderRCMode =
    GST_NV_ENCODER_RC_MODE_DEFAULT
  | GST_NV_ENCODER_RC_MODE_CONSTQP
  | GST_NV_ENCODER_RC_MODE_VBR
  | GST_NV_ENCODER_RC_MODE_OTHER nat

datatype prop_id =
    PROP_0
  | PROP_ADAPTER_LUID
  | PROP_CUDA_DEVICE_ID
  | PROP_PRESET
  | PROP_WEIGHTED_PRED
  | PROP_GOP_SIZE
  | PROP_B_FRAMES
  | PROP_RC_MODE
  | PROP_QP_CONST_I
  | PROP_QP_CONST_P
  | PROP_QP_CONST_B
  | PROP_BITRATE
  | PROP_MAX_BITRATE
  | PROP_VBV_BUFFER_SIZE
  | PROP_RC_LOOKAHEAD
  | PROP_I_ADAPT
  | PROP_B_ADAPT
  | PROP_SPATIAL_AQ
  | PROP_TEMPORAL_AQ
  | PROP_ZERO_LATENCY
  | PROP_NON_REF_P
  | PROP_STRICT_GOP
  | PROP_AQ_STRENGTH
  | PROP_QP_MIN_I
  | PROP_QP_MIN_P
  | PROP_QP_MIN_B
  | PROP_QP_MAX_I
  | PROP_QP_MAX_P
  | PROP_QP_MAX_B
  | PROP_CONST_QUALITY
  | PROP_AUD
  | PROP_CABAC
  | PROP_REPEAT_SEQUENCE_HEADER

text \<open>A \<^verbatim>\<open>GValue\<close>: a value tagged with the type it holds.\<close>

datatype GValue =
    G_BOOLEAN bool
  | G_INT gint
  | G_UINT guint
  | G_INT64 "64 word"
  | G_DOUBLE real
  | G_PRESET GstNvEncoderPreset
  | G_RC_MODE GstNvEncoderRCMode

record GstNvH264Encoder =
  init_param_updated :: bool
  rc_param_updated :: bool
  bitrate_updated :: bool
  packetized :: bool
  preset :: GstNvEncoderPreset
  weighted_pred :: bool
  gop_size :: gint
  bframes :: guint
  rc_mode :: GstNvEncoderRCMode
  qp_const_i :: gint
  qp_const_p :: gint
  qp_const_b :: gint
  bitrate :: guint
  max_bitrate :: guint
  vbv_buffer_size :: guint
  rc_lookahead :: guint
  i_adapt :: bool
  b_adapt :: bool
  spatial_aq :: bool
  temporal_aq :: bool
  zero_latency :: bool
  non_ref_p :: bool
  strict_gop :: bool
  aq_strength :: guint
  qp_min_i :: gint
  qp_min_p :: gint
  qp_min_b :: gint
  qp_max_i :: gint
  qp_max_p :: gint
  qp_max_b :: gint
  const_quality :: real
  aud :: bool
  cabac :: bool
  repeat_sequence_header :: bool

text \<open>
  The class structure: the identifiers of the device and the capabilities this
  file reads after registration.
\<close>

record GstNvH264EncoderDeviceCaps =
  caps_cabac :: gint
  dyn_bitrate_change :: gint

record GstNvH264EncoderClass =
  dev_caps :: GstNvH264EncoderDeviceCaps
  cuda_device_id :: guint
  adapter_luid :: "64 word"

section \<open>Property writes and reads\<close>

datatype PropUpdateLevel = UPDATE_INIT_PARAM | UPDATE_RC_PARAM | UPDATE_BITRATE

text \<open>The \<^verbatim>\<open>switch (level)\<close> that ends each of the four update helpers.\<close>

fun mark_updated :: "PropUpdateLevel \<Rightarrow> GstNvH264Encoder \<Rightarrow> GstNvH264Encoder" where
  "mark_updated UPDATE_INIT_PARAM self = self\<lparr>init_param_updated := True\<rparr>"
| "mark_updated UPDATE_RC_PARAM self = self\<lparr>rc_param_updated := True\<rparr>"
| "mark_updated UPDATE_BITRATE self = self\<lparr>bitrate_updated := True\<rparr>"

text \<open>
  \<^verbatim>\<open>update_boolean\<close>, \<^verbatim>\<open>update_int\<close>, \<^verbatim>\<open>update_uint\<close> and \<^verbatim>\<open>update_double\<close>.
  The pointer \<^verbatim>\<open>old_val\<close> into the instance is the pair of a field's reader and
  writer. GObject checks a value against the property's \<^verbatim>\<open>GParamSpec\<close> before
  the element sees it, so a value of another type never arrives; the model
  leaves the instance as it is for one.
\<close>

definition update_boolean ::
  "GstNvH264Encoder \<Rightarrow> (GstNvH264Encoder \<Rightarrow> bool) \<Rightarrow>
   (bool \<Rightarrow> GstNvH264Encoder \<Rightarrow> GstNvH264Encoder) \<Rightarrow> GValue \<Rightarrow> PropUpdateLevel \<Rightarrow>
   GstNvH264Encoder" where
  "update_boolean self old_val store new_val level =
     (case new_val of
        G_BOOLEAN val \<Rightarrow>
          if old_val self = val then self else mark_updated level (store val self)
      | _ \<Rightarrow> self)"

definition update_int ::
  "GstNvH264Encoder \<Rightarrow> (GstNvH264Encoder \<Rightarrow> gint) \<Rightarrow>
   (gint \<Rightarrow> GstNvH264Encoder \<Rightarrow> GstNvH264Encoder) \<Rightarrow> GValue \<Rightarrow> PropUpdateLevel \<Rightarrow>
   GstNvH264Encoder" where
  "update_int self old_val store new_val level =
     (case new_val of
        G_INT val \<Rightarrow>
          if old_val self = val then self else mark_updated level (store val self)
      | _ \<Rightarrow> self)"

definition update_uint ::
  "GstNvH264Encoder \<Rightarrow> (GstNvH264Encoder \<Rightarrow> guint) \<Rightarrow>
   (guint \<Rightarrow> GstNvH264Encoder \<Rightarrow> GstNvH264Encoder) \<Rightarrow> GValue \<Rightarrow> PropUpdateLevel \<Rightarrow>
   GstNvH264Encoder" where
  "update_uint self old_val store new_val level =
     (case new_val of
        G_UINT val \<Rightarrow>
          if old_val self = val then self else mark_updated level (store val self)
      | _ \<Rightarrow> self)"

definition update_double ::
  "GstNvH264Encoder \<Rightarrow> (GstNvH264Encoder \<Rightarrow> real) \<Rightarrow>
   (real \<Rightarrow> GstNvH264Encoder \<Rightarrow> GstNvH264Encoder) \<Rightarrow> GValue \<Rightarrow> PropUpdateLevel \<Rightarrow>
   GstNvH264Encoder" where
  "update_double self old_val store new_val level =
     (case new_val of
        G_DOUBLE val \<Rightarrow>
          if old_val self = val then self else mark_updated level (store val self)
      | _ \<Rightarrow> self)"

text \<open>
  \<^verbatim>\<open>gst_nv_h264_encoder_set_property\<close>, case by case in the order of the source.
  The three \<^verbatim>\<open>PROP_QP_MAX_*\<close> cases pass the address of the \<^verbatim>\<open>qp_min_*\<close> field,
  as the source does.
\<close>

definition set_property ::
  "GstNvH264Encoder \<Rightarrow> prop_id \<Rightarrow> GValue \<Rightarrow> GstNvH264Encoder" where
  "set_property self pid val =
     (case pid of
        PROP_PRESET \<Rightarrow>
          (case val of
             G_PRESET p \<Rightarrow>
               if p \<noteq> preset self
               then self\<lparr>preset := p, init_param_updated := True\<rparr> else self
           | _ \<Rightarrow> self)
      | PROP_WEIGHTED_PRED \<Rightarrow>
          update_boolean self weighted_pred (\<lambda>v s. s\<lparr>weighted_pred := v\<rparr>) val UPDATE_INIT_PARAM
      | PROP_GOP_SIZE \<Rightarrow>
          update_int self gop_size (\<lambda>v s. s\<lparr>gop_size := v\<rparr>) val UPDATE_INIT_PARAM
      | PROP_B_FRAMES \<Rightarrow>
          update_uint self bframes (\<lambda>v s. s\<lparr>bframes := v\<rparr>) val UPDATE_INIT_PARAM
      | PROP_RC_MODE \<Rightarrow>
          (case val of
             G_RC_MODE m \<Rightarrow>
               if m \<noteq> rc_mode self
               then self\<lparr>rc_mode := m, rc_param_updated := True\<rparr> else self
           | _ \<Rightarrow> self)
      | PROP_QP_CONST_I \<Rightarrow>
          update_int self qp_const_i (\<lambda>v s. s\<lparr>qp_const_i := v\<rparr>) val UPDATE_RC_PARAM
      | PROP_QP_CONST_P \<Rightarrow>
          update_int self qp_const_p (\<lambda>v s. s\<lparr>qp_const_p := v\<rparr>) val UPDATE_RC_PARAM
      | PROP_QP_CONST_B \<Rightarrow>
          update_int self qp_const_b (\<lambda>v s. s\<lparr>qp_const_b := v\<rparr>) val UPDATE_RC_PARAM
      | PROP_BITRATE \<Rightarrow>
          update_uint self bitrate (\<lambda>v s. s\<lparr>bitrate := v\<rparr>) val UPDATE_BITRATE
      | PROP_MAX_BITRATE \<Rightarrow>
          update_uint self max_bitrate (\<lambda>v s. s\<lparr>max_bitrate := v\<rparr>) val UPDATE_BITRATE
      | PROP_VBV_BUFFER_SIZE \<Rightarrow>
          update_uint self vbv_buffer_size (\<lambda>v s. s\<lparr>vbv_buffer_size := v\<rparr>) val UPDATE_RC_PARAM
      | PROP_RC_LOOKAHEAD \<Rightarrow>
          update_uint self rc_lookahead (\<lambda>v s. s\<lparr>rc_lookahead := v\<rparr>) val UPDATE_INIT_PARAM
      | PROP_I_ADAPT \<Rightarrow>
          update_boolean self i_adapt (\<lambda>v s. s\<lparr>i_adapt := v\<rparr>) val UPDATE_RC_PARAM
      | PROP_B_ADAPT \<Rightarrow>
          update_boolean self b_adapt (\<lambda>v s. s\<lparr>b_adapt := v\<rparr>) val UPDATE_RC_PARAM
      | PROP_SPATIAL_AQ \<Rightarrow>
          update_boolean self spatial_aq (\<lambda>v s. s\<lparr>spatial_aq := v\<rparr>) val UPDATE_RC_PARAM
      | PROP_TEMPORAL_AQ \<Rightarrow>
          update_boolean self temporal_aq (\<lambda>v s. s\<lparr>temporal_aq := v\<rparr>) val UPDATE_RC_PARAM
      | PROP_ZERO_LATENCY \<Rightarrow>
          update_boolean self zero_latency (\<lambda>v s. s\<lparr>zero_latency := v\<rparr>) val UPDATE_RC_PARAM
      | PROP_NON_REF_P \<Rightarrow>
          update_boolean self non_ref_p (\<lambda>v s. s\<lparr>non_ref_p := v\<rparr>) val UPDATE_RC_PARAM
      | PROP_STRICT_GOP \<Rightarrow>
          update_boolean self strict_gop (\<lambda>v s. s\<lparr>strict_gop := v\<rparr>) val UPDATE_RC_PARAM
      | PROP_AQ_STRENGTH \<Rightarrow>
          update_uint self aq_strength (\<lambda>v s. s\<lparr>aq_strength := v\<rparr>) val UPDATE_RC_PARAM
      | PROP_QP_MIN_I \<Rightarrow>
          update_int self qp_min_i (\<lambda>v s. s\<lparr>qp_min_i := v\<rparr>) val UPDATE_RC_PARAM
      | PROP_QP_MIN_P \<Rightarrow>
          update_int self qp_min_p (\<lambda>v s. s\<lparr>qp_min_p := v\<rparr>) val UPDATE_RC_PARAM
      | PROP_QP_MIN_B \<Rightarrow>
          update_int self qp_min_b (\<lambda>v s. s\<lparr>qp_min_b := v\<rparr>) val UPDATE_RC_PARAM
      | PROP_QP_MAX_I \<Rightarrow>
          update_int self qp_min_i (\<lambda>v s. s\<lparr>qp_min_i := v\<rparr>) val UPDATE_RC_PARAM
      | PROP_QP_MAX_P \<Rightarrow>
          update_int self qp_min_p (\<lambda>v s. s\<lparr>qp_min_p := v\<rparr>) val UPDATE_RC_PARAM
      | PROP_QP_MAX_B \<Rightarrow>
          update_int self qp_min_b (\<lambda>v s. s\<lparr>qp_min_b := v\<rparr>) val UPDATE_RC_PARAM
      | PROP_CONST_QUALITY \<Rightarrow>
          update_double self const_quality (\<lambda>v s. s\<lparr>const_quality := v\<rparr>) val UPDATE_RC_PARAM
      | PROP_AUD \<Rightarrow>
          update_boolean self aud (\<lambda>v s. s\<lparr>aud := v\<rparr>) val UPDATE_INIT_PARAM
      | PROP_CABAC \<Rightarrow>
          update_boolean self cabac (\<lambda>v s. s\<lparr>cabac := v\<rparr>) val UPDATE_INIT_PARAM
      | PROP_REPEAT_SEQUENCE_HEADER \<Rightarrow>
          update_boolean self repeat_sequence_header
            (\<lambda>v s. s\<lparr>repeat_sequence_header := v\<rparr>) val UPDATE_INIT_PARAM
      | _ \<Rightarrow> self)"

text \<open>
  \<^verbatim>\<open>gst_nv_h264_encoder_get_property\<close>; \<open>None\<close> is the default branch, which
  warns about the identifier and writes no value.
\<close>

definition get_property ::
  "GstNvH264Encoder \<Rightarrow> GstNvH264EncoderClass \<Rightarrow> prop_id \<Rightarrow> GValue option" where
  "get_property self klass pid =
     (case pid of
        PROP_ADAPTER_LUID \<Rightarrow> Some (G_INT64 (adapter_luid klass))
      | PROP_CUDA_DEVICE_ID \<Rightarrow> Some (G_UINT (cuda_device_id klass))
      | PROP_PRESET \<Rightarrow> Some (G_PRESET (preset self))
      | PROP_WEIGHTED_PRED \<Rightarrow> Some (G_BOOLEAN (weighted_pred self))
      | PROP_GOP_SIZE \<Rightarrow> Some (G_INT (gop_size self))
      | PROP_B_FRAMES \<Rightarrow> Some (G_UINT (bframes self))
      | PROP_RC_MODE \<Rightarrow> Some (G_RC_MODE (rc_mode self))
      | PROP_QP_CONST_I \<Rightarrow> Some (G_INT (qp_const_i self))
      | PROP_QP_CONST_P \<Rightarrow> Some (G_INT (qp_const_p self))
      | PROP_QP_CONST_B \<Rightarrow> Some (G_INT (qp_const_b self))
      | PROP_BITRATE \<Rightarrow> Some (G_UINT (bitrate self))
      | PROP_MAX_BITRATE \<Rightarrow> Some (G_UINT (max_bitrate self))
      | PROP_VBV_BUFFER_SIZE \<Rightarrow> Some (G_UINT (vbv_buffer_size self))
      | PROP_RC_LOOKAHEAD \<Rightarrow> Some (G_UINT (rc_lookahead self))
      | PROP_I_ADAPT \<Rightarrow> Some (G_BOOLEAN (i_adapt self))
      | PROP_B_ADAPT \<Rightarrow> Some (G_BOOLEAN (b_adapt self))
      | PROP_SPATIAL_AQ \<Rightarrow> Some (G_BOOLEAN (spatial_aq self))
      | PROP_TEMPORAL_AQ \<Rightarrow> Some (G_BOOLEAN (temporal_aq self))
      | PROP_ZERO_LATENCY \<Rightarrow> Some (G_BOOLEAN (zero_latency self))
      | PROP_NON_REF_P \<Rightarrow> Some (G_BOOLEAN (non_ref_p self))
      | PROP_STRICT_GOP \<Rightarrow> Some (G_BOOLEAN (strict_gop self))
      | PROP_AQ_STRENGTH \<Rightarrow> Some (G_UINT (aq_strength self))
      | PROP_QP_MIN_I \<Rightarrow> Some (G_INT (qp_min_i self))
      | PROP_QP_MIN_P \<Rightarrow> Some (G_INT (qp_min_p self))
      | PROP_QP_MIN_B \<Rightarrow> Some (G_INT (qp_min_b self))
      | PROP_QP_MAX_I \<Rightarrow> Some (G_INT (qp_max_i self))
      | PROP_QP_MAX_P \<Rightarrow> Some (G_INT (qp_max_p self))
      | PROP_QP_MAX_B \<Rightarrow> Some (G_INT (qp_max_b self))
      | PROP_CONST_QUALITY \<Rightarrow> Some (G_DOUBLE (const_quality self))
      | PROP_AUD \<Rightarrow> Some (G_BOOLEAN (aud self))
      | PROP_CABAC \<Rightarrow> Some (G_BOOLEAN (cabac self))
      | PROP_REPEAT_SEQUENCE_HEADER \<Rightarrow> Some (G_BOOLEAN (repeat_sequence_header self))
      | _ \<Rightarrow> None)"

text \<open>
  \<^verbatim>\<open>gst_nv_h264_encoder_init\<close>: the instance after construction. The three
  flags and \<^verbatim>\<open>packetized\<close> start cleared, as GObject zeroes a new instance, and
  \<^verbatim>\<open>cabac\<close> is set only where the device has it.
\<close>

definition encoder_init :: "GstNvH264EncoderClass \<Rightarrow> GstNvH264Encoder" where
  "encoder_init klass =
     \<lparr> init_param_updated = False, rc_param_updated = False, bitrate_updated = False,
       packetized = False,
       preset = GST_NV_ENCODER_PRESET_DEFAULT, weighted_pred = False,
       gop_size = 75, bframes = 0,
       rc_mode = GST_NV_ENCODER_RC_MODE_VBR,
       qp_const_i = - 1, qp_const_p = - 1, qp_const_b = - 1,
       bitrate = 0, max_bitrate = 0, vbv_buffer_size = 0, rc_lookahead = 0,
       i_adapt = False, b_adapt = False, spatial_aq = False, temporal_aq = False,
       zero_latency = False, non_ref_p = False, strict_gop = False,
       aq_strength = 0,
       qp_min_i = - 1, qp_min_p = - 1, qp_min_b = - 1,
       qp_max_i = - 1, qp_max_p = - 1, qp_max_b = - 1,
       const_quality = 0,
       aud = True, cabac = (caps_cabac (dev_caps klass) \<noteq> 0),
       repeat_sequence_header = False \<rparr>"

text \<open>A device used in the concrete evaluations below.\<close>

definition example_class :: GstNvH264EncoderClass where
  "example_class =
     \<lparr> dev_caps = \<lparr> caps_cabac = 1, dyn_bitrate_change = 1 \<rparr>,
       cuda_device_id = 0, adapter_luid = 0 \<rparr>"

section \<open>Driver structures\<close>

text \<open>
  Modelled from the spec: the structures and constants of the driver header
  \<^verbatim>\<open>nvEncodeAPI.h\<close>, which is not part of the embedded sources. The spec calls
  them the hardware configuration descriptor. They are modelled with the
  members this file writes and reads, under the names it uses for them. The
  profile GUIDs are distinct constants; a datatype keeps them distinct.
\<close>

datatype GUID =
    NV_ENC_CODEC_PROFILE_AUTOSELECT_GUID
  | NV_ENC_H264_PROFILE_BASELINE_GUID
  | NV_ENC_H264_PROFILE_MAIN_GUID
  | NV_ENC_H264_PROFILE_HIGH_GUID
  | NV_ENC_H264_PROFILE_HIGH_444_GUID
  | NV_ENC_H264_PROFILE_PROGRESSIVE_HIGH_GUID
  | NV_ENC_H264_PROFILE_CONSTRAINED_HIGH_GUID

datatype NVENCSTATUS = NV_ENC_SUCCESS | NV_ENC_ERR nat

datatype NV_ENC_H264_ENTROPY_CODING_MODE =
    NV_ENC_H264_ENTROPY_CODING_MODE_AUTOSELECT
  | NV_ENC_H264_ENTROPY_CODING_MODE_CABAC
  | NV_ENC_H264_ENTROPY_CODING_MODE_CAVLC

datatype NV_ENC_LEVEL = NV_ENC_LEVEL_AUTOSELECT | NV_ENC_LEVEL_OTHER nat

record NV_ENC_QP =
  qpInterP :: "32 word"
  qpInterB :: "32 word"
  qpIntra :: "32 word"

text \<open>
  \<^verbatim>\<open>rateControlMode\<close> holds the driver's number for a mode. The one-bit
  members are booleans; \<^verbatim>\<open>aqStrength\<close> and \<^verbatim>\<open>lookaheadDepth\<close> keep the width of
  the property value assigned to them.
\<close>

record NV_ENC_RC_PARAMS =
  rateControlMode :: "32 word"
  averageBitRate :: "32 word"
  maxBitRate :: "32 word"
  vbvBufferSize :: "32 word"
  enableMinQP :: bool
  enableMaxQP :: bool
  minQP :: NV_ENC_QP
  maxQP :: NV_ENC_QP
  enableAQ :: bool
  aqStrength :: "32 word"
  enableTemporalAQ :: bool
  enableLookahead :: bool
  lookaheadDepth :: "32 word"
  disableIadapt :: bool
  disableBadapt :: bool
  strictGOPTarget :: bool
  enableNonRefP :: bool
  zeroReorderDelay :: bool
  targetQuality :: guint8
  targetQualityLSB :: guint8

record NV_ENC_CONFIG_H264 =
  level :: NV_ENC_LEVEL
  chromaFormatIDC :: "32 word"
  idrPeriod :: "32 word"
  outputAUD :: bool
  disableSPSPPS :: bool
  repeatSPSPPS :: bool
  entropyCodingMode :: NV_ENC_H264_ENTROPY_CODING_MODE

text \<open>\<^verbatim>\<open>frameIntervalP\<close> is a signed 32-bit member, \<^verbatim>\<open>gopLength\<close> an unsigned one.\<close>

record NV_ENC_CONFIG =
  profileGUID :: GUID
  gopLength :: "32 word"
  frameIntervalP :: "32 word"
  rcParams :: NV_ENC_RC_PARAMS
  h264Config :: NV_ENC_CONFIG_H264

text \<open>
  Modelled from the spec: \<^verbatim>\<open>NVENC_INFINITE_GOPLENGTH\<close>, a macro of the driver
  header, which the spec calls the infinite GOP. It is the largest 32-bit
  value; no property below depends on which value it is.
\<close>

definition NVENC_INFINITE_GOPLENGTH :: "32 word" where
  "NVENC_INFINITE_GOPLENGTH = 0xffffffff"

datatype GstVideoFormat =
    GST_VIDEO_FORMAT_NV12
  | GST_VIDEO_FORMAT_Y444
  | GST_VIDEO_FORMAT_OTHER nat

text \<open>
  What the function reads of the input state for the members above:
  \<^verbatim>\<open>GST_VIDEO_INFO_IS_INTERLACED\<close> and \<^verbatim>\<open>GST_VIDEO_INFO_FORMAT\<close>.
\<close>

record GstVideoInfo =
  is_interlaced :: bool
  video_format :: GstVideoFormat

section \<open>Building the session configuration\<close>

text \<open>
  \<^verbatim>\<open>gst_nv_h264_encoder_set_format\<close> returns \<^verbatim>\<open>FALSE\<close> at four places, each
  after its own error message; the error value names the place.
\<close>

datatype set_format_error =
    NoDownstreamProfile
  | NoInterlacedProfile
  | No444Profile
  | PresetConfigFailed NVENCSTATUS

text \<open>
  The set \<^verbatim>\<open>downstream_profiles\<close> is a \<^verbatim>\<open>std::set<std::string>\<close>: a finite set
  of byte strings, iterated in ascending byte-wise lexicographic order, which
  is the order of \<^typ>\<open>string\<close> here. \<^verbatim>\<open>*downstream_profiles.begin ()\<close> is its
  least element.
\<close>

definition set_begin :: "string set \<Rightarrow> string" where
  "set_begin profiles = Min profiles"

text \<open>The four \<^verbatim>\<open>erase\<close> calls made for interlaced input.\<close>

definition erase_progressive_only :: "string set \<Rightarrow> string set" where
  "erase_progressive_only profiles =
     profiles - {''progressive-high''} - {''constrained-high''}
       - {''constrained-baseline''} - {''baseline''}"

text \<open>The profile set after the block for interlaced input.\<close>

definition remaining_profiles :: "GstVideoInfo \<Rightarrow> string set \<Rightarrow> string set" where
  "remaining_profiles info downstream_profiles =
     (if is_interlaced info then erase_progressive_only downstream_profiles
      else downstream_profiles)"

text \<open>
  The first part of the function, up to taking the property lock: the checks
  on the downstream profiles. It yields the profiles that remain, the profile
  selected so far and \<^verbatim>\<open>downstream_supports_bframe\<close>.
\<close>

definition negotiate_profiles ::
  "GstVideoInfo \<Rightarrow> string set \<Rightarrow> set_format_error + (string set \<times> GUID \<times> bool)" where
  "negotiate_profiles info downstream_profiles =
     (if downstream_profiles = {} then Inl NoDownstreamProfile
      else
        let profiles = remaining_profiles info downstream_profiles
        in if is_interlaced info \<and> profiles = {} then Inl NoInterlacedProfile
           else if video_format info = GST_VIDEO_FORMAT_Y444 then
             (if ''high-4:4:4'' \<notin> profiles then Inl No444Profile
              else Inr (profiles, NV_ENC_H264_PROFILE_HIGH_444_GUID, True))
           else
             Inr (profiles, NV_ENC_CODEC_PROFILE_AUTOSELECT_GUID,
                  ''high'' \<in> profiles \<or> ''main'' \<in> profiles
                    \<or> ''progressive-high'' \<in> profiles))"

text \<open>
  The GOP block. It takes the preset configuration, and returns the instance
  (whose \<^verbatim>\<open>bframes\<close> it may reset), the configuration and \<^verbatim>\<open>bframe_aborted\<close>.
\<close>

definition gop_structure ::
  "GstNvH264Encoder \<Rightarrow> bool \<Rightarrow> NV_ENC_CONFIG \<Rightarrow> GstNvH264Encoder \<times> NV_ENC_CONFIG \<times> bool" where
  "gop_structure self downstream_supports_bframe config =
     (if gop_size self <s 0 then
        (self, config\<lparr>gopLength := NVENC_INFINITE_GOPLENGTH, frameIntervalP := 1\<rparr>, False)
      else if 0 <s gop_size self then
        (let bframe_aborted = (bframes self \<noteq> 0 \<and> \<not> downstream_supports_bframe);
             self' = (if bframe_aborted then self\<lparr>bframes := 0\<rparr> else self)
         in (self', config\<lparr>gopLength := gop_size self, frameIntervalP := bframes self' + 1\<rparr>,
             bframe_aborted))
      else
        (self, config\<lparr>gopLength := 1, frameIntervalP := 0\<rparr>, False))"

text \<open>
  The quantizer cascade, written three times in the source: once on \<^verbatim>\<open>minQP\<close>
  and twice on \<^verbatim>\<open>maxQP\<close>. A \<^verbatim>\<open>gint\<close> is stored into the unsigned member as it is.
\<close>

definition cascade_qp :: "gint \<Rightarrow> gint \<Rightarrow> gint \<Rightarrow> NV_ENC_QP \<Rightarrow> NV_ENC_QP" where
  "cascade_qp qp_i qp_p qp_b qp =
     (let qp1 = qp\<lparr>qpIntra := qp_i\<rparr>;
          qp2 = (if 0 \<le>s qp_p then qp1\<lparr>qpInterP := qp_p\<rparr>
                 else qp1\<lparr>qpInterP := qpIntra qp1\<rparr>)
      in if 0 \<le>s qp_b then qp2\<lparr>qpInterB := qp_b\<rparr>
         else qp2\<lparr>qpInterB := qpInterP qp2\<rparr>)"

text \<open>
  \<^verbatim>\<open>(gint) (x * 256.0)\<close>: the product with a power of two is exact in binary
  floating point, and the conversion cuts the fraction off towards zero.
\<close>

definition double_to_gint :: "real \<Rightarrow> gint" where
  "double_to_gint x = word_of_int (if 0 \<le> x then \<lfloor>x\<rfloor> else \<lceil>x\<rceil>)"

text \<open>
  The rate-control block, from \<^verbatim>\<open>rc_params = &config->rcParams\<close> to the
  constant-quality target. \<^verbatim>\<open>gst_nv_encoder_rc_mode_to_native\<close> belongs to the
  base class and is a parameter.
\<close>

definition rate_control ::
  "GstNvH264Encoder \<Rightarrow> (GstNvEncoderRCMode \<Rightarrow> 32 word) \<Rightarrow> NV_ENC_RC_PARAMS \<Rightarrow>
   NV_ENC_RC_PARAMS" where
  "rate_control self rc_mode_to_native rc0 =
     (let rc1 = (if bitrate self \<noteq> 0 then rc0\<lparr>averageBitRate := bitrate self * 1024\<rparr> else rc0);
          rc2 = (if max_bitrate self \<noteq> 0 then rc1\<lparr>maxBitRate := max_bitrate self * 1024\<rparr>
                 else rc1);
          rc3 = (if vbv_buffer_size self \<noteq> 0
                 then rc2\<lparr>vbvBufferSize := vbv_buffer_size self * 1024\<rparr> else rc2);
          mode = (if rc_mode self = GST_NV_ENCODER_RC_MODE_DEFAULT \<and> 0 \<le>s qp_const_i self
                  then GST_NV_ENCODER_RC_MODE_CONSTQP else rc_mode self);
          rc4 = (if 0 \<le>s qp_min_i self
                 then rc3\<lparr>enableMinQP := True,
                          minQP := cascade_qp (qp_min_i self) (qp_min_p self) (qp_min_b self)
                                     (minQP rc3)\<rparr>
                 else rc3);
          rc5 = (if 0 \<le>s qp_max_i self
                 then rc4\<lparr>enableMaxQP := True,
                          maxQP := cascade_qp (qp_max_i self) (qp_max_p self) (qp_max_b self)
                                     (maxQP rc4)\<rparr>
                 else rc4);
          rc6 = (if mode = GST_NV_ENCODER_RC_MODE_CONSTQP \<and> 0 \<le>s qp_const_i self
                 then rc5\<lparr>enableMaxQP := True,
                          maxQP := cascade_qp (qp_max_i self) (qp_max_p self) (qp_max_b self)
                                     (maxQP rc5)\<rparr>
                 else rc5);
          rc7 = rc6\<lparr>rateControlMode := rc_mode_to_native mode\<rparr>;
          rc8 = (if spatial_aq self
                 then rc7\<lparr>enableAQ := True, aqStrength := aq_strength self\<rparr> else rc7);
          rc9 = rc8\<lparr>enableTemporalAQ := temporal_aq self\<rparr>;
          rc10 = (if rc_lookahead self \<noteq> 0
                  then rc9\<lparr>enableLookahead := True, lookaheadDepth := rc_lookahead self,
                           disableIadapt := \<not> i_adapt self, disableBadapt := \<not> b_adapt self\<rparr>
                  else rc9);
          rc11 = rc10\<lparr>strictGOPTarget := strict_gop self, enableNonRefP := non_ref_p self,
                      zeroReorderDelay := zero_latency self\<rparr>
      in if const_quality self \<noteq> 0 then
           (let scaled = double_to_gint (const_quality self * 256)
            in rc11\<lparr>targetQuality := ucast (drop_bit 8 scaled),
                    targetQualityLSB := ucast (scaled AND 0xff)\<rparr>)
         else rc11)"

text \<open>
  The two profile blocks that follow the rate control: the preference among
  \<open>main\<close>, \<open>high\<close> and \<open>progressive-high\<close> when \<^verbatim>\<open>frameIntervalP > 1\<close>, then
  "Pick the first profile".
\<close>

definition select_profile :: "GUID \<Rightarrow> string set \<Rightarrow> 32 word \<Rightarrow> GUID" where
  "select_profile selected profiles interval_p =
     (let selected1 =
            (if selected = NV_ENC_CODEC_PROFILE_AUTOSELECT_GUID \<and> 1 <s interval_p then
               (if ''main'' \<in> profiles then NV_ENC_H264_PROFILE_MAIN_GUID
                else if ''high'' \<in> profiles then NV_ENC_H264_PROFILE_HIGH_GUID
                else if ''progressive-high'' \<in> profiles
                  then NV_ENC_H264_PROFILE_PROGRESSIVE_HIGH_GUID
                else selected)
             else selected)
      in if selected1 = NV_ENC_CODEC_PROFILE_AUTOSELECT_GUID then
           (if set_begin profiles = ''baseline'' \<or> set_begin profiles = ''constrained-baseline''
              then NV_ENC_H264_PROFILE_BASELINE_GUID
            else if set_begin profiles = ''main'' then NV_ENC_H264_PROFILE_MAIN_GUID
            else if set_begin profiles = ''progressive-high''
              then NV_ENC_H264_PROFILE_PROGRESSIVE_HIGH_GUID
            else if set_begin profiles = ''constrained-high''
              then NV_ENC_H264_PROFILE_CONSTRAINED_HIGH_GUID
            else selected1)
         else selected1)"

text \<open>The codec block, without the VUI colour description.\<close>

definition h264_codec_config ::
  "GstNvH264Encoder \<Rightarrow> GstNvH264EncoderClass \<Rightarrow> GUID \<Rightarrow> 32 word \<Rightarrow> NV_ENC_CONFIG_H264 \<Rightarrow>
   NV_ENC_CONFIG_H264" where
  "h264_codec_config self klass selected_profile gop h0 =
     (let h1 = h0\<lparr>level := NV_ENC_LEVEL_AUTOSELECT,
                  chromaFormatIDC :=
                    (if selected_profile = NV_ENC_H264_PROFILE_HIGH_444_GUID then 3 else 1),
                  idrPeriod := gop, outputAUD := aud self\<rparr>;
          h2 = (if repeat_sequence_header self
                then h1\<lparr>disableSPSPPS := False, repeatSPSPPS := True\<rparr>
                else h1\<lparr>disableSPSPPS := packetized self\<rparr>)
      in h2\<lparr>entropyCodingMode :=
              (if caps_cabac (dev_caps klass) \<noteq> 0
                  \<and> selected_profile \<noteq> NV_ENC_H264_PROFILE_BASELINE_GUID
               then (if cabac self then NV_ENC_H264_ENTROPY_CODING_MODE_CABAC
                     else NV_ENC_H264_ENTROPY_CODING_MODE_CAVLC)
               else NV_ENC_H264_ENTROPY_CODING_MODE_AUTOSELECT)\<rparr>)"

text \<open>
  \<^verbatim>\<open>gst_nv_h264_encoder_set_format\<close>. Its inputs besides the instance and the
  class are what the calls it makes return:
  \<^item> \<open>downstream\<close>: the profile set and the \<^verbatim>\<open>packetized\<close> flag left by
    \<^verbatim>\<open>gst_nv_h264_encoder_get_downstream_profiles_and_format\<close>;
  \<^item> \<open>preset_query\<close>: the status of \<^verbatim>\<open>NvEncGetEncodePresetConfig\<close> and the
    \<^verbatim>\<open>presetCfg\<close> it filled in.
  The result is the instance after the call and either the error or the
  configuration together with the property names passed to \<^verbatim>\<open>g_object_notify\<close>.
  The writes to \<^verbatim>\<open>init_params\<close> and to the VUI parameters are left out: nothing
  modelled here reads them.
\<close>

definition set_format ::
  "GstNvH264Encoder \<Rightarrow> GstNvH264EncoderClass \<Rightarrow> string set \<times> bool \<Rightarrow> GstVideoInfo \<Rightarrow>
   (GstNvEncoderRCMode \<Rightarrow> 32 word) \<Rightarrow> NVENCSTATUS \<times> NV_ENC_CONFIG \<Rightarrow>
   GstNvH264Encoder \<times> (set_format_error + NV_ENC_CONFIG \<times> string list)" where
  "set_format self klass downstream info rc_mode_to_native preset_query =
     (let self1 = self\<lparr>packetized := snd downstream\<rparr>
      in case negotiate_profiles info (fst downstream) of
           Inl e \<Rightarrow> (self1, Inl e)
         | Inr (profiles, selected, downstream_supports_bframe) \<Rightarrow>
             if fst preset_query \<noteq> NV_ENC_SUCCESS
             then (self1, Inl (PresetConfigFailed (fst preset_query)))
             else
               let (self2, config1, bframe_aborted) =
                     gop_structure self1 downstream_supports_bframe (snd preset_query);
                   config2 =
                     config1\<lparr>rcParams := rate_control self2 rc_mode_to_native (rcParams config1)\<rparr>;
                   self3 = self2\<lparr>init_param_updated := False, bitrate_updated := False,
                                 rc_param_updated := False\<rparr>;
                   selected_profile = select_profile selected profiles (frameIntervalP config2);
                   config3 =
                     config2\<lparr>profileGUID := selected_profile,
                             h264Config :=
                               h264_codec_config self3 klass selected_profile
                                 (gopLength config2) (h264Config config2)\<rparr>
               in (self3, Inr (config3, if bframe_aborted then [''bframes''] else [])))"

text \<open>The configuration a call built, if it built one.\<close>

definition built_config ::
  "GstNvH264Encoder \<times> (set_format_error + NV_ENC_CONFIG \<times> string list) \<Rightarrow>
   NV_ENC_CONFIG option" where
  "built_config r = (case snd r of Inl e \<Rightarrow> None | Inr (config, notes) \<Rightarrow> Some config)"

subsection \<open>Profile orders\<close>

text \<open>
  The first name of an order that a profile set contains, and the profile GUID
  that the source pairs with each profile name.
\<close>

definition first_present :: "string list \<Rightarrow> string set \<Rightarrow> string option" where
  "first_present order profiles = find (\<lambda>p. p \<in> profiles) order"

definition profile_guid_of_name :: "string \<Rightarrow> GUID" where
  "profile_guid_of_name p =
     (if p = ''baseline'' \<or> p = ''constrained-baseline'' then NV_ENC_H264_PROFILE_BASELINE_GUID
      else if p = ''main'' then NV_ENC_H264_PROFILE_MAIN_GUID
      else if p = ''high'' then NV_ENC_H264_PROFILE_HIGH_GUID
      else if p = ''progressive-high'' then NV_ENC_H264_PROFILE_PROGRESSIVE_HIGH_GUID
      else if p = ''constrained-high'' then NV_ENC_H264_PROFILE_CONSTRAINED_HIGH_GUID
      else if p = ''high-4:4:4'' then NV_ENC_H264_PROFILE_HIGH_444_GUID
      else NV_ENC_CODEC_PROFILE_AUTOSELECT_GUID)"

text \<open>
  The priority order as the specification words it, and the profile it would
  select: this definition follows the specification, not the source.
\<close>

definition spec_priority_order :: "string list" where
  "spec_priority_order =
     [''main'', ''high'', ''progressive-high'', ''constrained-high'',
      ''constrained-baseline'', ''baseline'', ''high-4:4:4'']"

definition spec_selected_profile :: "string set \<Rightarrow> GUID option" where
  "spec_selected_profile profiles =
     map_option profile_guid_of_name (first_present spec_priority_order profiles)"

text \<open>The seven profile names in the iteration order of the set.\<close>

definition set_iteration_order :: "string list" where
  "set_iteration_order =
     [''baseline'', ''constrained-baseline'', ''constrained-high'', ''high'',
      ''high-4:4:4'', ''main'', ''progressive-high'']"

section \<open>Reconfiguration check\<close>

text \<open>
  Modelled from the spec: the enumeration \<^verbatim>\<open>GstNvEncoderReconfigure\<close> of the
  base-class header, with the three decisions the spec lists (no-op,
  bitrate-only, full) under the names this file uses.
\<close>

datatype GstNvEncoderReconfigure =
    GST_NV_ENCODER_RECONFIGURE_NONE
  | GST_NV_ENCODER_RECONFIGURE_BITRATE
  | GST_NV_ENCODER_RECONFIGURE_FULL

text \<open>
  \<^verbatim>\<open>gst_nv_h264_encoder_check_reconfigure\<close>: the instance with its flags
  cleared, the live configuration and the decision.
\<close>

definition check_reconfigure ::
  "GstNvH264Encoder \<Rightarrow> GstNvH264EncoderClass \<Rightarrow> NV_ENC_CONFIG \<Rightarrow>
   GstNvH264Encoder \<times> NV_ENC_CONFIG \<times> GstNvEncoderReconfigure" where
  "check_reconfigure self klass config =
     (let (config', reconfig) =
            (if init_param_updated self \<or> rc_param_updated self
               then (config, GST_NV_ENCODER_RECONFIGURE_FULL)
             else if bitrate_updated self then
               (if 0 <s dyn_bitrate_change (dev_caps klass) then
                  (config\<lparr>rcParams := (rcParams config)
                      \<lparr>averageBitRate := bitrate self * 1024,
                       maxBitRate := max_bitrate self * 1024\<rparr>\<rparr>,
                   GST_NV_ENCODER_RECONFIGURE_BITRATE)
                else (config, GST_NV_ENCODER_RECONFIGURE_FULL))
             else (config, GST_NV_ENCODER_RECONFIGURE_NONE))
      in (self\<lparr>init_param_updated := False, rc_param_updated := False,
               bitrate_updated := False\<rparr>,
          config', reconfig))"

text \<open>A preset configuration used in the concrete evaluations below.\<close>

definition example_preset :: NV_ENC_CONFIG where
  "example_preset =
     \<lparr> profileGUID = NV_ENC_CODEC_PROFILE_AUTOSELECT_GUID, gopLength = 30, frameIntervalP = 1,
       rcParams =
         \<lparr> rateControlMode = 0, averageBitRate = 0, maxBitRate = 0, vbvBufferSize = 0,
           enableMinQP = False, enableMaxQP = False,
           minQP = \<lparr> qpInterP = 0, qpInterB = 0, qpIntra = 0 \<rparr>,
           maxQP = \<lparr> qpInterP = 0, qpInterB = 0, qpIntra = 0 \<rparr>,
           enableAQ = False, aqStrength = 0, enableTemporalAQ = False,
           enableLookahead = False, lookaheadDepth = 0,
           disableIadapt = False, disableBadapt = False,
           strictGOPTarget = False, enableNonRefP = False, zeroReorderDelay = False,
           targetQuality = 0, targetQualityLSB = 0 \<rparr>,
       h264Config =
         \<lparr> level = NV_ENC_LEVEL_AUTOSELECT, chromaFormatIDC = 1, idrPeriod = 30,
           outputAUD = False, disableSPSPPS = False, repeatSPSPPS = False,
           entropyCodingMode = NV_ENC_H264_ENTROPY_CODING_MODE_AUTOSELECT \<rparr> \<rparr>"

definition example_rc_mode_to_native :: "GstNvEncoderRCMode \<Rightarrow> 32 word" where
  "example_rc_mode_to_native m =
     (case m of
        GST_NV_ENCODER_RC_MODE_DEFAULT \<Rightarrow> 0
      | GST_NV_ENCODER_RC_MODE_CONSTQP \<Rightarrow> 0
      | GST_NV_ENCODER_RC_MODE_VBR \<Rightarrow> 1
      | GST_NV_ENCODER_RC_MODE_OTHER n \<Rightarrow> 2)"

section \<open>Packaging the encoder output\<close>

















text \<open>Progressive 4:2:0 input, as used in the concrete evaluations below.\<close>

definition example_info :: GstVideoInfo where
  "example_info = \<lparr> is_interlaced = False, video_format = GST_VIDEO_FORMAT_NV12 \<rparr>"

text \<open>Progressive 4:4:4 input.\<close>

definition example_info_444 :: GstVideoInfo where
  "example_info_444 = \<lparr> is_interlaced = False, video_format = GST_VIDEO_FORMAT_Y444 \<rparr>"

text \<open>
  An instance in steady state whose minimum I-frame quantizer was set to 10:
  the property was written and the next reconfiguration check has cleared the
  flags.
\<close>

definition instance_with_qp_min_i :: GstNvH264Encoder where
  "instance_with_qp_min_i =
     fst (check_reconfigure
            (set_property (encoder_init example_class) PROP_QP_MIN_I (G_INT 10))
            example_class example_preset)"

text \<open>
  The same instance after a write of the GOP size and after a write of the
  bitrate, and a device without dynamic bitrate change.
\<close>

definition instance_gop_written :: GstNvH264Encoder where
  "instance_gop_written = set_property instance_with_qp_min_i PROP_GOP_SIZE (G_INT 30)"

definition instance_bitrate_written :: GstNvH264Encoder where
  "instance_bitrate_written = set_property instance_with_qp_min_i PROP_BITRATE (G_UINT 4000)"

definition example_class_static :: GstNvH264EncoderClass where
  "example_class_static =
     \<lparr> dev_caps = \<lparr> caps_cabac = 1, dyn_bitrate_change = 0 \<rparr>,
       cuda_device_id = 0, adapter_luid = 0 \<rparr>"

text \<open>
  The instances a run can produce: the instance after construction, and any
  instance after a property write, a format set or a reconfiguration check.
  Nothing else in this file writes the properties.
\<close>

inductive reachable :: "GstNvH264EncoderClass \<Rightarrow> GstNvH264Encoder \<Rightarrow> bool" where
  reachable_init: "reachable klass (encoder_init klass)"
| reachable_set_property:
    "reachable klass s \<Longrightarrow> reachable klass (set_property s pid v)"
| reachable_set_format:
    "reachable klass s \<Longrightarrow>
     reachable klass (fst (set_format s klass downstream info f pq))"
| reachable_check_reconfigure:
    "reachable klass s \<Longrightarrow> reachable klass (fst (check_reconfigure s klass config))"

section \<open>Properties of the property handlers\<close>

lemmas update_defs = update_boolean_def update_int_def update_uint_def update_double_def

lemma set_property_qp_max_keeps_max:
  "qp_max_i (set_property self PROP_QP_MAX_I v) = qp_max_i self"
  "qp_max_p (set_property self PROP_QP_MAX_P v) = qp_max_p self"
  "qp_max_b (set_property self PROP_QP_MAX_B v) = qp_max_b self"
  by (cases v; simp add: set_property_def update_int_def)+

text \<open>
  Claim C1 says that writing \<open>qp-max-t\<close>, for each frame type \<open>t\<close>, stores the
  value into the max-QP field of \<open>t\<close>, so that reading \<open>qp-max-t\<close> returns it,
  and leaves the min-QP field of \<open>t\<close> alone. The source does not: on a fresh
  instance, writing 30 to \<open>qp-max-i\<close>, \<open>qp-max-p\<close> or \<open>qp-max-b\<close> leaves the
  property at -1 when it is read back, and \<open>qp-min-i\<close>, \<open>qp-min-p\<close> or
  \<open>qp-min-b\<close> reads 30 instead. The getter reads the \<^verbatim>\<open>qp_max_*\<close> fields; the
  setter writes the \<^verbatim>\<open>qp_min_*\<close> fields. The configuration built after the
  write to \<open>qp-max-i\<close> has the maximum bound disabled and the minimum bound
  enabled with 30 for I-frames.
\<close>

theorem qp_max_write_lands_in_qp_min:
  "get_property (set_property (encoder_init example_class) PROP_QP_MAX_I (G_INT 30))
     example_class PROP_QP_MAX_I = Some (G_INT (- 1))
   \<and> get_property (set_property (encoder_init example_class) PROP_QP_MAX_I (G_INT 30))
     example_class PROP_QP_MIN_I = Some (G_INT 30)
   \<and> get_property (set_property (encoder_init example_class) PROP_QP_MAX_P (G_INT 30))
     example_class PROP_QP_MAX_P = Some (G_INT (- 1))
   \<and> get_property (set_property (encoder_init example_class) PROP_QP_MAX_P (G_INT 30))
     example_class PROP_QP_MIN_P = Some (G_INT 30)
   \<and> get_property (set_property (encoder_init example_class) PROP_QP_MAX_B (G_INT 30))
     example_class PROP_QP_MAX_B = Some (G_INT (- 1))
   \<and> get_property (set_property (encoder_init example_class) PROP_QP_MAX_B (G_INT 30))
     example_class PROP_QP_MIN_B = Some (G_INT 30)
   \<and> map_option
       (\<lambda>c. (enableMaxQP (rcParams c), enableMinQP (rcParams c), qpIntra (minQP (rcParams c))))
       (built_config
          (set_format (set_property (encoder_init example_class) PROP_QP_MAX_I (G_INT 30))
             example_class ({''baseline''}, False) example_info example_rc_mode_to_native
             (NV_ENC_SUCCESS, example_preset)))
     = Some (False, True, 30)"
proof -
  have neg: "negotiate_profiles example_info {''baseline''}
     = Inr ({''baseline''}, NV_ENC_CODEC_PROFILE_AUTOSELECT_GUID, False)"
    by (simp add: negotiate_profiles_def example_info_def remaining_profiles_def)
  show ?thesis
    by (simp add: set_property_def get_property_def update_int_def encoder_init_def
        built_config_def set_format_def neg gop_structure_def Let_def word_sless_alt
        word_sle_eq rate_control_def cascade_qp_def example_preset_def)
qed

lemma instance_with_qp_min_i_eq:
  "instance_with_qp_min_i = (encoder_init example_class)\<lparr>qp_min_i := 10\<rparr>"
  by (simp add: instance_with_qp_min_i_def check_reconfigure_def set_property_def
      update_int_def encoder_init_def)

text \<open>
  A write of the value a property already has changes nothing, for every
  property but the three \<open>qp-max-*\<close> ones.
\<close>

lemma redundant_write_is_noop_elsewhere:
  assumes "pid \<noteq> PROP_QP_MAX_I" "pid \<noteq> PROP_QP_MAX_P" "pid \<noteq> PROP_QP_MAX_B"
    and "get_property self klass pid = Some v"
  shows "set_property self pid v = self"
  using assms
  by (cases pid) (auto simp add: get_property_def set_property_def update_defs)

text \<open>
  Claim C10 says that writing a property with the value it already has leaves
  the whole parameter state unchanged, the three dirty flags included. The
  source breaks it for \<open>qp-max-i\<close> (and likewise \<open>qp-max-p\<close>, \<open>qp-max-b\<close>): on an
  instance in steady state with \<open>qp-min-i\<close> = 10, the property \<open>qp-max-i\<close> reads
  -1; writing -1 to it changes the instance, overwrites \<open>qp-min-i\<close> with -1
  and raises the rate-control flag, so that the next check asks for a full
  reconfiguration.
\<close>

theorem redundant_qp_max_write_changes_state:
  "get_property instance_with_qp_min_i example_class PROP_QP_MAX_I = Some (G_INT (- 1))
   \<and> \<not> rc_param_updated instance_with_qp_min_i
   \<and> qp_min_i instance_with_qp_min_i = 10
   \<and> set_property instance_with_qp_min_i PROP_QP_MAX_I (G_INT (- 1)) \<noteq> instance_with_qp_min_i
   \<and> rc_param_updated (set_property instance_with_qp_min_i PROP_QP_MAX_I (G_INT (- 1)))
   \<and> qp_min_i (set_property instance_with_qp_min_i PROP_QP_MAX_I (G_INT (- 1))) = - 1
   \<and> snd (snd (check_reconfigure
        (set_property instance_with_qp_min_i PROP_QP_MAX_I (G_INT (- 1)))
        example_class example_preset)) = GST_NV_ENCODER_RECONFIGURE_FULL"
  apply (simp add: instance_with_qp_min_i_eq)
  apply (simp add: set_property_def get_property_def update_int_def encoder_init_def
      check_reconfigure_def)
  done

section \<open>Properties of the session configuration\<close>

subsection \<open>What a successful call is made of\<close>

lemma set_format_InrD:
  assumes "set_format self klass downstream info f pq = (self', Inr (cfg, notes))"
  obtains profiles sel bfr self2 config1 aborted where
    "negotiate_profiles info (fst downstream) = Inr (profiles, sel, bfr)"
    "fst pq = NV_ENC_SUCCESS"
    "gop_structure (self\<lparr>packetized := snd downstream\<rparr>) bfr (snd pq)
       = (self2, config1, aborted)"
    "self' = self2\<lparr>init_param_updated := False, bitrate_updated := False,
                    rc_param_updated := False\<rparr>"
    "gopLength cfg = gopLength config1"
    "frameIntervalP cfg = frameIntervalP config1"
    "rcParams cfg = rate_control self2 f (rcParams config1)"
    "profileGUID cfg = select_profile sel profiles (frameIntervalP config1)"
    "notes = (if aborted then [''bframes''] else [])"
proof (cases "negotiate_profiles info (fst downstream)")
  case (Inl e)
  with assms show ?thesis by (simp add: set_format_def)
next
  case (Inr t)
  obtain profiles sel bfr where t: "t = (profiles, sel, bfr)" by (cases t)
  obtain self2 config1 aborted where
    g: "gop_structure (self\<lparr>packetized := snd downstream\<rparr>) bfr (snd pq)
          = (self2, config1, aborted)"
    by (cases "gop_structure (self\<lparr>packetized := snd downstream\<rparr>) bfr (snd pq)")
  from assms Inr t have ok: "fst pq = NV_ENC_SUCCESS"
    by (auto simp add: set_format_def Let_def split: if_splits)
  from assms Inr t g ok have
    "self' = self2\<lparr>init_param_updated := False, bitrate_updated := False,
                    rc_param_updated := False\<rparr>"
    "gopLength cfg = gopLength config1"
    "frameIntervalP cfg = frameIntervalP config1"
    "rcParams cfg = rate_control self2 f (rcParams config1)"
    "profileGUID cfg = select_profile sel profiles (frameIntervalP config1)"
    "notes = (if aborted then [''bframes''] else [])"
    by (auto simp add: set_format_def Let_def)
  with Inr t g ok that show ?thesis by blast
qed

lemma set_format_InrI:
  assumes "negotiate_profiles info D = Inr (profiles, sel, bfr)"
  shows "\<exists>self' cfg notes.
           set_format self klass (D, pk) info f (NV_ENC_SUCCESS, pc) = (self', Inr (cfg, notes))"
  using assms by (simp add: set_format_def Let_def split: prod.splits)

lemma negotiate_example:
  "negotiate_profiles example_info {''baseline''}
     = Inr ({''baseline''}, NV_ENC_CODEC_PROFILE_AUTOSELECT_GUID, False)"
  by (simp add: negotiate_profiles_def example_info_def remaining_profiles_def)

lemma set_format_example:
  "\<exists>self' cfg notes.
      set_format s example_class ({''baseline''}, False) example_info
        example_rc_mode_to_native (NV_ENC_SUCCESS, example_preset) = (self', Inr (cfg, notes))"
  by (rule set_format_InrI [OF negotiate_example])

subsection \<open>GOP structure\<close>

lemma sint_trichotomy: "\<not> (g::32 word) <s 0 \<Longrightarrow> \<not> 0 <s g \<Longrightarrow> g = 0"
  by (simp add: word_sless_alt) (metis signed_eq_0_iff)

lemma sless_asym32: "0 <s (g::32 word) \<Longrightarrow> \<not> g <s 0"
  by (simp add: word_sless_alt)

lemma gop_structure_neg:
  "gop_size s <s 0 \<Longrightarrow> gop_structure s bfr c = (s2, c1, ab) \<Longrightarrow>
   gopLength c1 = NVENC_INFINITE_GOPLENGTH \<and> frameIntervalP c1 = 1 \<and> s2 = s \<and> \<not> ab"
  by (auto simp add: gop_structure_def Let_def split: if_splits)

lemma gop_structure_zero:
  "gop_size s = 0 \<Longrightarrow> gop_structure s bfr c = (s2, c1, ab) \<Longrightarrow>
   gopLength c1 = 1 \<and> frameIntervalP c1 = 0 \<and> s2 = s \<and> \<not> ab"
  by (auto simp add: gop_structure_def Let_def split: if_splits)

lemma gop_structure_pos:
  "0 <s gop_size s \<Longrightarrow> gop_structure s bfr c = (s2, c1, ab) \<Longrightarrow>
   gopLength c1 = gop_size s \<and> frameIntervalP c1 = bframes s2 + 1
   \<and> ab = (bframes s \<noteq> 0 \<and> \<not> bfr)
   \<and> s2 = (if ab then s\<lparr>bframes := 0\<rparr> else s)"
  by (auto simp add: gop_structure_def Let_def split: if_splits dest: sless_asym32)

lemma negotiate_profiles_supports:
  "negotiate_profiles info D = Inr (profiles, sel, bfr) \<Longrightarrow>
   bfr = (video_format info = GST_VIDEO_FORMAT_Y444
          \<or> ''high'' \<in> remaining_profiles info D \<or> ''main'' \<in> remaining_profiles info D
          \<or> ''progressive-high'' \<in> remaining_profiles info D)"
  by (auto simp add: negotiate_profiles_def Let_def split: if_splits)

text \<open>
  Claim C4. Whenever the call builds a configuration: a negative GOP size
  gives the infinite GOP length with \<^verbatim>\<open>frameIntervalP\<close> 1; GOP size 0 gives GOP
  length 1 with \<^verbatim>\<open>frameIntervalP\<close> 0; in both cases the B-frame count is left
  alone and nothing is notified. A positive GOP size \<open>g\<close> gives GOP length \<open>g\<close>
  and \<^verbatim>\<open>frameIntervalP\<close> one more than the B-frame count of the instance: when
  no B-frames are configured, or downstream is taken to support them (4:4:4
  input, or one of \<open>high\<close>, \<open>main\<close>, \<open>progressive-high\<close> remaining), the
  configured count is kept, \<^verbatim>\<open>frameIntervalP\<close> is the configured count plus one
  and nothing is notified; otherwise the count is forced to 0, \<^verbatim>\<open>frameIntervalP\<close>
  is 1 and the override is notified. Every GOP size is in one of the three
  cases.
\<close>

theorem gop_size_sets_cadence:
  assumes "set_format self klass (D, pk) info f pq = (self', Inr (cfg, notes))"
  shows "(gop_size self <s 0 \<longrightarrow>
            gopLength cfg = NVENC_INFINITE_GOPLENGTH \<and> frameIntervalP cfg = 1
            \<and> bframes self' = bframes self \<and> notes = [])
       \<and> (gop_size self = 0 \<longrightarrow>
            gopLength cfg = 1 \<and> frameIntervalP cfg = 0
            \<and> bframes self' = bframes self \<and> notes = [])
       \<and> (0 <s gop_size self \<longrightarrow>
            gopLength cfg = gop_size self \<and> frameIntervalP cfg = bframes self' + 1
            \<and> (notes = [] \<longrightarrow> bframes self' = bframes self)
            \<and> (bframes self = 0 \<or> video_format info = GST_VIDEO_FORMAT_Y444
                 \<or> ''high'' \<in> remaining_profiles info D
                 \<or> ''main'' \<in> remaining_profiles info D
                 \<or> ''progressive-high'' \<in> remaining_profiles info D \<longrightarrow>
                 frameIntervalP cfg = bframes self + 1 \<and> bframes self' = bframes self
                 \<and> notes = [])
            \<and> (bframes self \<noteq> 0 \<and> video_format info \<noteq> GST_VIDEO_FORMAT_Y444
                 \<and> ''high'' \<notin> remaining_profiles info D
                 \<and> ''main'' \<notin> remaining_profiles info D
                 \<and> ''progressive-high'' \<notin> remaining_profiles info D \<longrightarrow>
                 frameIntervalP cfg = 1 \<and> bframes self' = 0 \<and> notes = [''bframes'']))
       \<and> (gop_size self <s 0 \<or> gop_size self = 0 \<or> 0 <s gop_size self)"
proof -
  from assms obtain profiles sel bfr self2 config1 aborted where
    ng: "negotiate_profiles info (fst (D, pk)) = Inr (profiles, sel, bfr)"
    and g: "gop_structure (self\<lparr>packetized := snd (D, pk)\<rparr>) bfr (snd pq)
          = (self2, config1, aborted)"
    and s: "self' = self2\<lparr>init_param_updated := False, bitrate_updated := False,
                    rc_param_updated := False\<rparr>"
    and c: "gopLength cfg = gopLength config1" "frameIntervalP cfg = frameIntervalP config1"
    and n: "notes = (if aborted then [''bframes''] else [])"
    by (rule set_format_InrD)
  from ng have bfr: "bfr = (video_format info = GST_VIDEO_FORMAT_Y444
          \<or> ''high'' \<in> remaining_profiles info D \<or> ''main'' \<in> remaining_profiles info D
          \<or> ''progressive-high'' \<in> remaining_profiles info D)"
    using negotiate_profiles_supports [of info D profiles sel bfr] by simp
  have neg: "gop_size self <s 0 \<longrightarrow>
      gopLength cfg = NVENC_INFINITE_GOPLENGTH \<and> frameIntervalP cfg = 1
      \<and> bframes self' = bframes self \<and> notes = []"
    using gop_structure_neg [OF _ g] c s n by simp
  have zero: "gop_size self = 0 \<longrightarrow> gopLength cfg = 1 \<and> frameIntervalP cfg = 0
      \<and> bframes self' = bframes self \<and> notes = []"
    using gop_structure_zero [OF _ g] c s n by simp
  have pos: "gopLength cfg = gop_size self \<and> frameIntervalP cfg = bframes self' + 1
            \<and> aborted = (bframes self \<noteq> 0 \<and> \<not> bfr)
            \<and> bframes self' = (if aborted then 0 else bframes self)"
    if "0 <s gop_size self"
    using gop_structure_pos [OF _ g] that c s by (auto split: if_splits)
  have tri: "gop_size self <s 0 \<or> gop_size self = 0 \<or> 0 <s gop_size self"
    using sint_trichotomy by blast
  from neg zero pos tri n bfr show ?thesis by (simp split: if_splits)
qed

theorem gop_size_sets_cadence_witness:
  "(\<exists>self' cfg.
      set_format ((encoder_init example_class)\<lparr>gop_size := - 1, bframes := 2\<rparr>) example_class
        ({''main''}, False) example_info example_rc_mode_to_native
        (NV_ENC_SUCCESS, example_preset) = (self', Inr (cfg, []))
      \<and> gopLength cfg = NVENC_INFINITE_GOPLENGTH \<and> frameIntervalP cfg = 1
      \<and> bframes self' = 2)
   \<and> (\<exists>self' cfg.
      set_format ((encoder_init example_class)\<lparr>gop_size := 0, bframes := 2\<rparr>) example_class
        ({''main''}, False) example_info example_rc_mode_to_native
        (NV_ENC_SUCCESS, example_preset) = (self', Inr (cfg, []))
      \<and> gopLength cfg = 1 \<and> frameIntervalP cfg = 0 \<and> bframes self' = 2)
   \<and> (\<exists>self' cfg.
      set_format ((encoder_init example_class)\<lparr>gop_size := 30, bframes := 2\<rparr>) example_class
        ({''main''}, False) example_info example_rc_mode_to_native
        (NV_ENC_SUCCESS, example_preset) = (self', Inr (cfg, []))
      \<and> gopLength cfg = 30 \<and> frameIntervalP cfg = 3 \<and> bframes self' = 2)
   \<and> (\<exists>self' cfg.
      set_format ((encoder_init example_class)\<lparr>gop_size := 30, bframes := 2\<rparr>) example_class
        ({''baseline''}, False) example_info example_rc_mode_to_native
        (NV_ENC_SUCCESS, example_preset) = (self', Inr (cfg, [''bframes'']))
      \<and> gopLength cfg = 30 \<and> frameIntervalP cfg = 1 \<and> bframes self' = 0)"
proof -
  let ?neg = "(encoder_init example_class)\<lparr>gop_size := - 1, bframes := 2\<rparr>"
  let ?zero = "(encoder_init example_class)\<lparr>gop_size := 0, bframes := 2\<rparr>"
  let ?pos = "(encoder_init example_class)\<lparr>gop_size := 30, bframes := 2\<rparr>"
  have ngm: "negotiate_profiles example_info {''main''}
     = Inr ({''main''}, NV_ENC_CODEC_PROFILE_AUTOSELECT_GUID, True)"
    by (simp add: negotiate_profiles_def example_info_def remaining_profiles_def)
  have rm: "remaining_profiles example_info {''main''} = {''main''}"
    "remaining_profiles example_info {''baseline''} = {''baseline''}"
    "video_format example_info \<noteq> GST_VIDEO_FORMAT_Y444"
    by (simp_all add: remaining_profiles_def example_info_def)
  have a: "gop_size ?neg <s 0" by (simp add: word_sless_alt)
  have b: "gop_size ?zero = 0" by simp
  have c: "0 <s gop_size ?pos" "gop_size ?pos = 30" "bframes ?pos = 2" "bframes ?pos \<noteq> 0"
    "bframes ?neg = 2" "bframes ?zero = 2"
    by (simp_all add: word_sless_alt)
  from set_format_InrI [OF ngm] obtain s1 c1 n1 where e1:
    "set_format ?neg example_class ({''main''}, False) example_info
       example_rc_mode_to_native (NV_ENC_SUCCESS, example_preset) = (s1, Inr (c1, n1))"
    by blast
  from set_format_InrI [OF ngm] obtain s2 c2 n2 where e2:
    "set_format ?zero example_class ({''main''}, False) example_info
       example_rc_mode_to_native (NV_ENC_SUCCESS, example_preset) = (s2, Inr (c2, n2))"
    by blast
  from set_format_InrI [OF ngm] obtain s3 c3 n3 where e3:
    "set_format ?pos example_class ({''main''}, False) example_info
       example_rc_mode_to_native (NV_ENC_SUCCESS, example_preset) = (s3, Inr (c3, n3))"
    by blast
  from set_format_example [of ?pos] obtain s4 c4 n4 where e4:
    "set_format ?pos example_class ({''baseline''}, False) example_info
       example_rc_mode_to_native (NV_ENC_SUCCESS, example_preset) = (s4, Inr (c4, n4))"
    by blast
  from gop_size_sets_cadence [OF e1] a c(5)
  have r1: "gopLength c1 = NVENC_INFINITE_GOPLENGTH \<and> frameIntervalP c1 = 1
      \<and> bframes s1 = 2 \<and> n1 = []"
    by simp
  from gop_size_sets_cadence [OF e2] b c(6)
  have r2: "gopLength c2 = 1 \<and> frameIntervalP c2 = 0 \<and> bframes s2 = 2 \<and> n2 = []"
    by simp
  from gop_size_sets_cadence [OF e3] c(1-3) rm(1)
  have r3: "gopLength c3 = 30 \<and> frameIntervalP c3 = 3 \<and> bframes s3 = 2 \<and> n3 = []"
    by simp
  from gop_size_sets_cadence [OF e4] c(1-4) rm(2,3)
  have r4: "gopLength c4 = 30 \<and> frameIntervalP c4 = 1 \<and> bframes s4 = 0
      \<and> n4 = [''bframes'']"
    by simp
  from r1 r2 r3 r4 e1 e2 e3 e4 show ?thesis by blast
qed

subsection \<open>Forced B-frame reset\<close>

lemma remaining_profiles_subset: "remaining_profiles info D \<subseteq> D"
  by (auto simp add: remaining_profiles_def erase_progressive_only_def)

lemma negotiate_profiles_not_444:
  assumes "video_format info \<noteq> GST_VIDEO_FORMAT_Y444"
    and "remaining_profiles info D \<noteq> {}"
  shows "negotiate_profiles info D =
           Inr (remaining_profiles info D, NV_ENC_CODEC_PROFILE_AUTOSELECT_GUID,
                ''high'' \<in> remaining_profiles info D \<or> ''main'' \<in> remaining_profiles info D
                  \<or> ''progressive-high'' \<in> remaining_profiles info D)"
proof -
  from assms(2) remaining_profiles_subset [of info D] have "D \<noteq> {}" by blast
  with assms show ?thesis by (simp add: negotiate_profiles_def Let_def)
qed

text \<open>
  Claim C5. B-frames and a positive GOP size are configured, the input is not
  4:4:4, and among the downstream profiles that remain after the filter for
  interlaced input there is none of \<open>high\<close>, \<open>main\<close> and \<open>progressive-high\<close>,
  the profiles the source takes to support B-frames (only \<open>baseline\<close>, for
  one). Then, the preset query succeeding, the call builds a configuration,
  the instance holds B-frame count 0 afterwards, \<^verbatim>\<open>frameIntervalP\<close> is 1, and
  exactly one notification is emitted, for the property \<open>bframes\<close>.
\<close>

theorem bframes_forced_to_zero:
  assumes "bframes self \<noteq> 0" and "0 <s gop_size self"
    and "video_format info \<noteq> GST_VIDEO_FORMAT_Y444"
    and "remaining_profiles info D \<noteq> {}"
    and "''high'' \<notin> remaining_profiles info D"
    and "''main'' \<notin> remaining_profiles info D"
    and "''progressive-high'' \<notin> remaining_profiles info D"
  shows "\<exists>self' cfg.
           set_format self klass (D, pk) info f (NV_ENC_SUCCESS, pc)
             = (self', Inr (cfg, [''bframes'']))
           \<and> bframes self' = 0 \<and> frameIntervalP cfg = 1"
proof -
  from assms have neg: "negotiate_profiles info D =
      Inr (remaining_profiles info D, NV_ENC_CODEC_PROFILE_AUTOSELECT_GUID, False)"
    by (simp add: negotiate_profiles_not_444)
  from set_format_InrI [OF neg] obtain self' cfg nts where
    e: "set_format self klass (D, pk) info f (NV_ENC_SUCCESS, pc) = (self', Inr (cfg, nts))"
    by blast
  from e obtain bfr self2 config1 aborted where
    n: "negotiate_profiles info (fst (D, pk)) = Inr (remaining_profiles info D, NV_ENC_CODEC_PROFILE_AUTOSELECT_GUID, bfr)"
    and g: "gop_structure (self\<lparr>packetized := snd (D, pk)\<rparr>) bfr (snd (NV_ENC_SUCCESS, pc))
          = (self2, config1, aborted)"
    and s: "self' = self2\<lparr>init_param_updated := False, bitrate_updated := False,
                    rc_param_updated := False\<rparr>"
    and c: "frameIntervalP cfg = frameIntervalP config1"
    and nt: "nts = (if aborted then [''bframes''] else [])"
    using neg by (elim set_format_InrD) auto
  from n neg have "\<not> bfr" by simp
  with gop_structure_pos [OF _ g] assms(1,2) s c nt
  have "bframes self' = 0 \<and> frameIntervalP cfg = 1 \<and> nts = [''bframes'']"
    by simp
  with e show ?thesis by blast
qed

theorem bframes_forced_to_zero_witness:
  "\<exists>self' cfg.
     set_format ((encoder_init example_class)\<lparr>gop_size := 30, bframes := 2\<rparr>) example_class
       ({''baseline''}, False) example_info example_rc_mode_to_native
       (NV_ENC_SUCCESS, example_preset) = (self', Inr (cfg, [''bframes'']))
     \<and> bframes self' = 0 \<and> frameIntervalP cfg = 1"
  by (rule bframes_forced_to_zero) (simp_all add: word_sless_alt example_info_def remaining_profiles_def)

subsection \<open>Quantizer bounds\<close>

lemma cascade_qp_fields:
  "qpIntra (cascade_qp i p b q) = i"
  "qpInterP (cascade_qp i p b q) = (if 0 \<le>s p then p else i)"
  "qpInterB (cascade_qp i p b q) = (if 0 \<le>s b then b else if 0 \<le>s p then p else i)"
  by (simp_all add: cascade_qp_def Let_def)

lemma rate_control_minQP:
  "0 \<le>s qp_min_i s \<Longrightarrow>
   enableMinQP (rate_control s f rc)
   \<and> minQP (rate_control s f rc) = cascade_qp (qp_min_i s) (qp_min_p s) (qp_min_b s) (minQP rc)"
  by (simp add: rate_control_def Let_def)

lemma cascade_qp_twice:
  "cascade_qp i p b (cascade_qp i p b q) = cascade_qp i p b q"
  by (simp add: cascade_qp_def Let_def)

lemma rate_control_maxQP:
  "0 \<le>s qp_max_i s \<Longrightarrow>
   enableMaxQP (rate_control s f rc)
   \<and> maxQP (rate_control s f rc) = cascade_qp (qp_max_i s) (qp_max_p s) (qp_max_b s) (maxQP rc)"
  by (simp add: rate_control_def Let_def cascade_qp_twice)

lemma set_format_keeps_rc_inputs:
  assumes "set_format self klass downstream info f pq = (self', Inr (cfg, notes))"
  obtains s2 rc where "rcParams cfg = rate_control s2 f rc"
    "qp_min_i s2 = qp_min_i self" "qp_min_p s2 = qp_min_p self" "qp_min_b s2 = qp_min_b self"
    "qp_max_i s2 = qp_max_i self" "qp_max_p s2 = qp_max_p self" "qp_max_b s2 = qp_max_b self"
    "const_quality s2 = const_quality self"
proof -
  from assms obtain bfr self2 config1 aborted where
    g: "gop_structure (self\<lparr>packetized := snd downstream\<rparr>) bfr (snd pq)
          = (self2, config1, aborted)"
    and rc: "rcParams cfg = rate_control self2 f (rcParams config1)"
    by (rule set_format_InrD)
  from g have "self2 = self\<lparr>packetized := snd downstream\<rparr>
      \<or> self2 = self\<lparr>packetized := snd downstream, bframes := 0\<rparr>"
    by (auto simp add: gop_structure_def Let_def split: if_splits)
  then have "qp_min_i self2 = qp_min_i self" "qp_min_p self2 = qp_min_p self"
    "qp_min_b self2 = qp_min_b self"
    "qp_max_i self2 = qp_max_i self" "qp_max_p self2 = qp_max_p self"
    "qp_max_b self2 = qp_max_b self"
    "const_quality self2 = const_quality self"
    by auto
  with rc that show ?thesis by blast
qed

lemma not_sle_minus_one: "\<not> 0 \<le>s (- 1 :: 32 word)"
  by (simp add: word_sle_eq)

text \<open>
  The builder alone, on the fields it reads: when the I bound of a group is
  not negative, the group is enabled with that I bound, the P bound is the
  configured one when set and the I bound when unset (-1), and the B bound is
  the configured one when set and the P bound of the configuration when
  unset. The rule is the same for the minimum and the maximum group.
\<close>

lemma builder_cascades_qp_fields:
  assumes "set_format self klass downstream info f pq = (self', Inr (cfg, notes))"
  shows "(0 \<le>s qp_min_i self \<longrightarrow>
            enableMinQP (rcParams cfg)
            \<and> qpIntra (minQP (rcParams cfg)) = qp_min_i self
            \<and> (qp_min_p self = - 1 \<longrightarrow> qpInterP (minQP (rcParams cfg)) = qp_min_i self)
            \<and> (0 \<le>s qp_min_p self \<longrightarrow> qpInterP (minQP (rcParams cfg)) = qp_min_p self)
            \<and> (qp_min_b self = - 1 \<longrightarrow>
                 qpInterB (minQP (rcParams cfg)) = qpInterP (minQP (rcParams cfg)))
            \<and> (0 \<le>s qp_min_b self \<longrightarrow> qpInterB (minQP (rcParams cfg)) = qp_min_b self))
       \<and> (0 \<le>s qp_max_i self \<longrightarrow>
            enableMaxQP (rcParams cfg)
            \<and> qpIntra (maxQP (rcParams cfg)) = qp_max_i self
            \<and> (qp_max_p self = - 1 \<longrightarrow> qpInterP (maxQP (rcParams cfg)) = qp_max_i self)
            \<and> (0 \<le>s qp_max_p self \<longrightarrow> qpInterP (maxQP (rcParams cfg)) = qp_max_p self)
            \<and> (qp_max_b self = - 1 \<longrightarrow>
                 qpInterB (maxQP (rcParams cfg)) = qpInterP (maxQP (rcParams cfg)))
            \<and> (0 \<le>s qp_max_b self \<longrightarrow> qpInterB (maxQP (rcParams cfg)) = qp_max_b self))"
proof -
  from assms obtain s2 rc where rc: "rcParams cfg = rate_control s2 f rc"
    and q: "qp_min_i s2 = qp_min_i self" "qp_min_p s2 = qp_min_p self"
      "qp_min_b s2 = qp_min_b self"
      "qp_max_i s2 = qp_max_i self" "qp_max_p s2 = qp_max_p self" "qp_max_b s2 = qp_max_b self"
    by (rule set_format_keeps_rc_inputs)
  have mn: "0 \<le>s qp_min_i self \<Longrightarrow>
      enableMinQP (rcParams cfg) \<and>
      minQP (rcParams cfg) = cascade_qp (qp_min_i self) (qp_min_p self) (qp_min_b self) (minQP rc)"
    using rate_control_minQP [of s2 f rc] rc q by simp
  have mx: "0 \<le>s qp_max_i self \<Longrightarrow>
      enableMaxQP (rcParams cfg) \<and>
      maxQP (rcParams cfg) = cascade_qp (qp_max_i self) (qp_max_p self) (qp_max_b self) (maxQP rc)"
    using rate_control_maxQP [of s2 f rc] rc q by simp
  show ?thesis
    using mn mx by (auto simp add: cascade_qp_fields not_sle_minus_one)
qed

text \<open>
  No property write, format set or reconfiguration check writes the three
  \<^verbatim>\<open>qp_max_*\<close> fields: in every instance a run can produce they hold the -1 of
  the constructor, and the maximum half of the rule above never applies.
\<close>

lemma set_property_keeps_qp_max:
  "qp_max_i (set_property s pid v) = qp_max_i s
   \<and> qp_max_p (set_property s pid v) = qp_max_p s
   \<and> qp_max_b (set_property s pid v) = qp_max_b s"
  by (cases pid) (auto simp add: set_property_def update_defs split: GValue.splits)

lemma set_format_keeps_qp_max:
  "qp_max_i (fst (set_format s klass downstream info f pq)) = qp_max_i s
   \<and> qp_max_p (fst (set_format s klass downstream info f pq)) = qp_max_p s
   \<and> qp_max_b (fst (set_format s klass downstream info f pq)) = qp_max_b s"
  by (auto simp add: set_format_def gop_structure_def Let_def
      split: sum.splits prod.splits if_splits)

lemma check_reconfigure_keeps_qp_max:
  "qp_max_i (fst (check_reconfigure s klass config)) = qp_max_i s
   \<and> qp_max_p (fst (check_reconfigure s klass config)) = qp_max_p s
   \<and> qp_max_b (fst (check_reconfigure s klass config)) = qp_max_b s"
  by (simp add: check_reconfigure_def split: prod.splits)

lemma reachable_qp_max_unset:
  "reachable klass s \<Longrightarrow> qp_max_i s = - 1 \<and> qp_max_p s = - 1 \<and> qp_max_b s = - 1"
proof (induction rule: reachable.induct)
  case (reachable_init klass)
  show ?case by (simp add: encoder_init_def)
next
  case (reachable_set_property klass s pid v)
  with set_property_keeps_qp_max [of s pid v] show ?case by simp
next
  case (reachable_set_format klass s downstream info f pq)
  with set_format_keeps_qp_max [of s klass downstream info f pq] show ?case by simp
next
  case (reachable_check_reconfigure klass s config)
  with check_reconfigure_keeps_qp_max [of s klass config] show ?case by simp
qed

lemma reachable_max_qp_never_set: "reachable klass s \<Longrightarrow> \<not> 0 \<le>s qp_max_i s"
  using reachable_qp_max_unset [of klass s] by (simp add: not_sle_minus_one)

text \<open>
  Claim C6 says that, whenever the I bound is set and the P and B bounds are
  unset, the built configuration gives the P bound the I value and the B bound
  the P value, in the maximum group as in the minimum group. The source does
  so for the minimum group only. On a fresh instance, after the write of 40 to
  \<open>qp-max-i\<close> (with \<open>qp-max-p\<close> and \<open>qp-max-b\<close> unset), the property still reads
  -1 and the built configuration has the maximum bound disabled and the
  maximum quantizers of the preset untouched, where the claim asks for 40 on
  all three; the minimum bound is enabled with 40 on all three instead.
\<close>

theorem qp_max_bound_never_reaches_config:
  "get_property (set_property (encoder_init example_class) PROP_QP_MAX_I (G_INT 40))
     example_class PROP_QP_MAX_I = Some (G_INT (- 1))
   \<and> get_property (set_property (encoder_init example_class) PROP_QP_MAX_I (G_INT 40))
     example_class PROP_QP_MAX_P = Some (G_INT (- 1))
   \<and> get_property (set_property (encoder_init example_class) PROP_QP_MAX_I (G_INT 40))
     example_class PROP_QP_MAX_B = Some (G_INT (- 1))
   \<and> map_option
       (\<lambda>c. (enableMaxQP (rcParams c), qpIntra (maxQP (rcParams c)),
             qpInterP (maxQP (rcParams c)), qpInterB (maxQP (rcParams c))))
       (built_config
          (set_format (set_property (encoder_init example_class) PROP_QP_MAX_I (G_INT 40))
             example_class ({''baseline''}, False) example_info example_rc_mode_to_native
             (NV_ENC_SUCCESS, example_preset)))
     = Some (False, 0, 0, 0)
   \<and> map_option
       (\<lambda>c. (enableMinQP (rcParams c), qpIntra (minQP (rcParams c)),
             qpInterP (minQP (rcParams c)), qpInterB (minQP (rcParams c))))
       (built_config
          (set_format (set_property (encoder_init example_class) PROP_QP_MAX_I (G_INT 40))
             example_class ({''baseline''}, False) example_info example_rc_mode_to_native
             (NV_ENC_SUCCESS, example_preset)))
     = Some (True, 40, 40, 40)"
  by (simp add: set_property_def get_property_def update_int_def encoder_init_def
      built_config_def set_format_def negotiate_example gop_structure_def Let_def
      word_sless_alt word_sle_eq rate_control_def cascade_qp_def example_preset_def)

subsection \<open>Constant quality\<close>

lemma rate_control_target_quality:
  "const_quality s \<noteq> 0 \<Longrightarrow>
   targetQuality (rate_control s f rc) = ucast (drop_bit 8 (double_to_gint (const_quality s * 256)))
   \<and> targetQualityLSB (rate_control s f rc) = ucast (double_to_gint (const_quality s * 256) AND 0xff)"
  by (simp add: rate_control_def Let_def)

lemma word_of_int_small:
  fixes n :: int
  assumes "0 \<le> n" "n < 65536"
  shows "unat (word_of_int n :: 32 word) = nat n"
  using assms by (simp add: unat_eq_nat_uint uint_word_of_int take_bit_int_eq_self)

lemma mask_ff: "(w :: 32 word) AND 0xff = take_bit 8 w"
proof -
  have "(0xff :: 32 word) = mask 8" by (simp add: mask_eq_exp_minus_1)
  then show ?thesis by (simp add: take_bit_eq_mask)
qed

lemma fixed_point_bytes:
  fixes n :: int
  assumes "0 \<le> n" "n < 65536"
  shows "unat (ucast (drop_bit 8 (word_of_int n :: 32 word)) :: 8 word) = nat (n div 256)"
    and "unat (ucast ((word_of_int n :: 32 word) AND 0xff) :: 8 word) = nat (n mod 256)"
proof -
  have u: "unat (word_of_int n :: 32 word) = nat n" using assms by (rule word_of_int_small)
  have "unat (drop_bit 8 (word_of_int n :: 32 word)) = nat n div 256"
    by (simp only: unat_drop_bit_eq u) (simp add: drop_bit_eq_div)
  moreover have "nat n div 256 < 256" using assms by simp
  ultimately show "unat (ucast (drop_bit 8 (word_of_int n :: 32 word)) :: 8 word) = nat (n div 256)"
    using assms by (simp add: unsigned_ucast_eq take_bit_eq_mod nat_div_distrib)
  have "unat ((word_of_int n :: 32 word) AND 0xff) = nat n mod 256"
    by (simp only: mask_ff unsigned_take_bit_eq u) (simp add: take_bit_eq_mod)
  then show "unat (ucast ((word_of_int n :: 32 word) AND 0xff) :: 8 word) = nat (n mod 256)"
    using assms by (simp add: unsigned_ucast_eq take_bit_eq_mod nat_mod_distrib)
qed

text \<open>
  Claim C8. For a constant quality \<open>q\<close> other than 0, with \<open>scaled\<close> the
  product \<open>q * 256\<close> cut to an integer, the built configuration has
  \<^verbatim>\<open>targetQuality\<close> equal to the low byte of \<open>scaled >> 8\<close> and
  \<^verbatim>\<open>targetQualityLSB\<close> equal to \<open>scaled & 0xff\<close>. Within the range of the
  property (up to 51) these are the quotient and the remainder of \<open>scaled\<close> by
  256, and \<open>q = 32.5\<close> gives 32 and 128.
\<close>

theorem const_quality_fixed_point:
  assumes "set_format self klass downstream info f pq = (self', Inr (cfg, notes))"
    and "const_quality self \<noteq> 0"
  shows "targetQuality (rcParams cfg)
           = ucast (drop_bit 8 (double_to_gint (const_quality self * 256)))
       \<and> targetQualityLSB (rcParams cfg)
           = ucast (double_to_gint (const_quality self * 256) AND 0xff)
       \<and> (0 < const_quality self \<and> const_quality self \<le> 51 \<longrightarrow>
            unat (targetQuality (rcParams cfg)) = nat \<lfloor>const_quality self * 256\<rfloor> div 256
            \<and> unat (targetQualityLSB (rcParams cfg)) = nat \<lfloor>const_quality self * 256\<rfloor> mod 256)
       \<and> (const_quality self = 32.5 \<longrightarrow>
            targetQuality (rcParams cfg) = 32 \<and> targetQualityLSB (rcParams cfg) = 128)"
proof -
  from assms(1) obtain s2 rc where rc: "rcParams cfg = rate_control s2 f rc"
    and q: "const_quality s2 = const_quality self"
    by (rule set_format_keeps_rc_inputs)
  from rate_control_target_quality [of s2 f rc] assms(2) rc q
  have tq: "targetQuality (rcParams cfg)
           = ucast (drop_bit 8 (double_to_gint (const_quality self * 256)))"
    and lsb: "targetQualityLSB (rcParams cfg)
           = ucast (double_to_gint (const_quality self * 256) AND 0xff)"
    by simp_all
  have rng: "unat (targetQuality (rcParams cfg)) = nat \<lfloor>const_quality self * 256\<rfloor> div 256
            \<and> unat (targetQualityLSB (rcParams cfg)) = nat \<lfloor>const_quality self * 256\<rfloor> mod 256"
    if "0 < const_quality self" "const_quality self \<le> 51"
  proof -
    let ?n = "\<lfloor>const_quality self * 256\<rfloor>"
    from that have n: "0 \<le> ?n" "?n < 65536" by (simp_all add: floor_less_iff)
    from that have d: "double_to_gint (const_quality self * 256) = word_of_int ?n"
      by (simp add: double_to_gint_def)
    from fixed_point_bytes [OF n] show ?thesis
      unfolding tq lsb d using n by (simp add: nat_div_distrib nat_mod_distrib)
  qed
  have ex: "targetQuality (rcParams cfg) = 32 \<and> targetQualityLSB (rcParams cfg) = 128"
    if "const_quality self = 32.5"
    unfolding tq lsb that by (simp add: double_to_gint_def)
  from tq lsb rng ex show ?thesis by blast
qed

theorem const_quality_fixed_point_witness:
  "\<exists>self' cfg nts.
     set_format ((encoder_init example_class)\<lparr>const_quality := 32.5\<rparr>) example_class
       ({''baseline''}, False) example_info example_rc_mode_to_native
       (NV_ENC_SUCCESS, example_preset) = (self', Inr (cfg, nts))
     \<and> targetQuality (rcParams cfg) = 32 \<and> targetQualityLSB (rcParams cfg) = 128"
proof -
  let ?s = "(encoder_init example_class)\<lparr>const_quality := 32.5\<rparr>"
  from set_format_example [of ?s] obtain s1 c1 n1 where e:
    "set_format ?s example_class ({''baseline''}, False) example_info
       example_rc_mode_to_native (NV_ENC_SUCCESS, example_preset) = (s1, Inr (c1, n1))"
    by blast
  have h: "const_quality ?s \<noteq> 0" "const_quality ?s = 32.5" by simp_all
  from const_quality_fixed_point [OF e h(1)] h(2)
  have "targetQuality (rcParams c1) = 32 \<and> targetQualityLSB (rcParams c1) = 128"
    by blast
  with e show ?thesis by blast
qed

subsection \<open>4:4:4 input\<close>

lemma negotiate_profiles_444:
  assumes "video_format info = GST_VIDEO_FORMAT_Y444"
  shows "''high-4:4:4'' \<in> D \<Longrightarrow>
           negotiate_profiles info D
             = Inr (remaining_profiles info D, NV_ENC_H264_PROFILE_HIGH_444_GUID, True)"
    and "''high-4:4:4'' \<notin> D \<Longrightarrow>
           negotiate_profiles info D
             = Inl (if D = {} then NoDownstreamProfile
                    else if is_interlaced info \<and> remaining_profiles info D = {}
                      then NoInterlacedProfile
                    else No444Profile)"
  using assms
  by (auto simp add: negotiate_profiles_def Let_def remaining_profiles_def
      erase_progressive_only_def)

lemma select_profile_444:
  "select_profile NV_ENC_H264_PROFILE_HIGH_444_GUID profiles ip = NV_ENC_H264_PROFILE_HIGH_444_GUID"
  by (simp add: select_profile_def)

text \<open>
  Claim C9. For Y444 input, the preset query succeeding: if the downstream
  set contains \<open>high-4:4:4\<close> the call succeeds, selects the 4:4:4 profile and
  takes downstream to support B-frames, so the configured B-frame count is
  kept, nothing is notified and \<^verbatim>\<open>frameIntervalP\<close> is that count plus one for
  a positive GOP size; if the set does not contain it the call fails at one
  of the three profile checks, leaving only \<^verbatim>\<open>packetized\<close> written. With
  only \<open>baseline\<close> downstream that check is the 4:4:4 one for progressive input
  and the interlace one for interlaced input. The source returns \<^verbatim>\<open>FALSE\<close> at
  each; the specification calls them \<open>UnsupportedFormat\<close>.
\<close>

theorem y444_needs_high_444:
  assumes "video_format info = GST_VIDEO_FORMAT_Y444"
  shows "(''high-4:4:4'' \<in> D \<longrightarrow>
            (\<exists>self' cfg.
               set_format self klass (D, pk) info f (NV_ENC_SUCCESS, pc) = (self', Inr (cfg, []))
               \<and> profileGUID cfg = NV_ENC_H264_PROFILE_HIGH_444_GUID
               \<and> bframes self' = bframes self
               \<and> (0 <s gop_size self \<longrightarrow> frameIntervalP cfg = bframes self + 1))
            \<and> negotiate_profiles info D
                = Inr (remaining_profiles info D, NV_ENC_H264_PROFILE_HIGH_444_GUID, True))
       \<and> (''high-4:4:4'' \<notin> D \<longrightarrow>
            set_format self klass (D, pk) info f (NV_ENC_SUCCESS, pc)
              = (self\<lparr>packetized := pk\<rparr>,
                 Inl (if D = {} then NoDownstreamProfile
                      else if is_interlaced info \<and> remaining_profiles info D = {}
                        then NoInterlacedProfile
                      else No444Profile)))
       \<and> (D = {''baseline''} \<longrightarrow>
            set_format self klass (D, pk) info f (NV_ENC_SUCCESS, pc)
              = (self\<lparr>packetized := pk\<rparr>,
                 Inl (if is_interlaced info then NoInterlacedProfile else No444Profile)))"
proof -
  have yes: "(\<exists>self' cfg.
               set_format self klass (D, pk) info f (NV_ENC_SUCCESS, pc) = (self', Inr (cfg, []))
               \<and> profileGUID cfg = NV_ENC_H264_PROFILE_HIGH_444_GUID
               \<and> bframes self' = bframes self
               \<and> (0 <s gop_size self \<longrightarrow> frameIntervalP cfg = bframes self + 1))
            \<and> negotiate_profiles info D
                = Inr (remaining_profiles info D, NV_ENC_H264_PROFILE_HIGH_444_GUID, True)"
    if "''high-4:4:4'' \<in> D"
  proof -
    from negotiate_profiles_444(1) [OF assms that]
    have neg: "negotiate_profiles info D
                = Inr (remaining_profiles info D, NV_ENC_H264_PROFILE_HIGH_444_GUID, True)" .
    from set_format_InrI [OF neg] obtain self' cfg nts where
      e: "set_format self klass (D, pk) info f (NV_ENC_SUCCESS, pc) = (self', Inr (cfg, nts))"
      by blast
    from e obtain bfr sel profiles self2 config1 aborted where
      n: "negotiate_profiles info (fst (D, pk)) = Inr (profiles, sel, bfr)"
      and g: "gop_structure (self\<lparr>packetized := snd (D, pk)\<rparr>) bfr (snd (NV_ENC_SUCCESS, pc))
          = (self2, config1, aborted)"
      and s: "self' = self2\<lparr>init_param_updated := False, bitrate_updated := False,
                    rc_param_updated := False\<rparr>"
      and c: "frameIntervalP cfg = frameIntervalP config1"
      and p: "profileGUID cfg = select_profile sel profiles (frameIntervalP config1)"
      and nt: "nts = (if aborted then [''bframes''] else [])"
      by (elim set_format_InrD)
    from n neg have b: "bfr" "sel = NV_ENC_H264_PROFILE_HIGH_444_GUID" by simp_all
    from g b have ab: "\<not> aborted" "bframes self2 = bframes self"
      by (auto simp add: gop_structure_def Let_def split: if_splits)
    from gop_structure_pos [OF _ g] ab c
    have "0 <s gop_size self \<longrightarrow> frameIntervalP cfg = bframes self + 1" by simp
    with e nt ab s p b neg show ?thesis by (simp add: select_profile_444)
  qed
  have no: "set_format self klass (D, pk) info f (NV_ENC_SUCCESS, pc)
              = (self\<lparr>packetized := pk\<rparr>,
                 Inl (if D = {} then NoDownstreamProfile
                      else if is_interlaced info \<and> remaining_profiles info D = {}
                        then NoInterlacedProfile
                      else No444Profile))"
    if "''high-4:4:4'' \<notin> D"
    using negotiate_profiles_444(2) [OF assms that] by (simp add: set_format_def)
  have base: "set_format self klass (D, pk) info f (NV_ENC_SUCCESS, pc)
              = (self\<lparr>packetized := pk\<rparr>,
                 Inl (if is_interlaced info then NoInterlacedProfile else No444Profile))"
    if "D = {''baseline''}"
  proof -
    from that have "''high-4:4:4'' \<notin> D" by simp
    from no [OF this] that show ?thesis
      by (simp add: remaining_profiles_def erase_progressive_only_def)
  qed
  from yes no base show ?thesis by blast
qed

theorem y444_needs_high_444_witness:
  "(\<exists>self' cfg.
      set_format ((encoder_init example_class)\<lparr>bframes := 2\<rparr>) example_class
        ({''high-4:4:4''}, False) example_info_444 example_rc_mode_to_native
        (NV_ENC_SUCCESS, example_preset) = (self', Inr (cfg, []))
      \<and> profileGUID cfg = NV_ENC_H264_PROFILE_HIGH_444_GUID
      \<and> bframes self' = 2 \<and> frameIntervalP cfg = 3)
   \<and> set_format ((encoder_init example_class)\<lparr>bframes := 2\<rparr>) example_class
        ({''baseline''}, False) example_info_444 example_rc_mode_to_native
        (NV_ENC_SUCCESS, example_preset)
       = ((encoder_init example_class)\<lparr>bframes := 2, packetized := False\<rparr>, Inl No444Profile)"
proof -
  have y: "video_format example_info_444 = GST_VIDEO_FORMAT_Y444"
    by (simp add: example_info_444_def)
  have i: "\<not> is_interlaced example_info_444" by (simp add: example_info_444_def)
  have g: "0 <s gop_size ((encoder_init example_class)\<lparr>bframes := 2\<rparr>)"
    "bframes ((encoder_init example_class)\<lparr>bframes := 2\<rparr>) = 2"
    by (simp_all add: encoder_init_def word_sless_alt)
  have m: "''high-4:4:4'' \<in> {''high-4:4:4''}" by simp
  from y444_needs_high_444 [OF y, of "{''high-4:4:4''}" "(encoder_init example_class)\<lparr>bframes := 2\<rparr>"
      example_class False example_rc_mode_to_native example_preset] m g
  have a: "\<exists>self' cfg.
      set_format ((encoder_init example_class)\<lparr>bframes := 2\<rparr>) example_class
        ({''high-4:4:4''}, False) example_info_444 example_rc_mode_to_native
        (NV_ENC_SUCCESS, example_preset) = (self', Inr (cfg, []))
      \<and> profileGUID cfg = NV_ENC_H264_PROFILE_HIGH_444_GUID
      \<and> bframes self' = 2 \<and> frameIntervalP cfg = 3"
    by auto
  from y444_needs_high_444 [OF y, of "{''baseline''}" "(encoder_init example_class)\<lparr>bframes := 2\<rparr>"
      example_class False example_rc_mode_to_native example_preset] i
  have b: "set_format ((encoder_init example_class)\<lparr>bframes := 2\<rparr>) example_class
        ({''baseline''}, False) example_info_444 example_rc_mode_to_native
        (NV_ENC_SUCCESS, example_preset)
       = ((encoder_init example_class)\<lparr>bframes := 2, packetized := False\<rparr>, Inl No444Profile)"
    by simp
  from a b show ?thesis by blast
qed

section \<open>Properties of the reconfiguration check\<close>

lemma kbit_to_bit:
  "unat (b :: 32 word) \<le> 2000 * 1024 \<Longrightarrow> unat (b * 1024) = unat b * 1024"
  by (simp add: unat_word_ariths)

text \<open>
  Claim C3. At a reconfiguration check: with the init-param or the
  rate-control flag set the decision is the full reconfiguration and the
  configuration is left alone; with only the bitrate flag set and a positive
  \<^verbatim>\<open>dyn_bitrate_change\<close> the decision is the bitrate update, the live
  rate-control parameters receive \<open>bitrate * 1024\<close> and \<open>max_bitrate * 1024\<close>,
  and the instance differs from before only in the cleared bitrate flag, so
  that all three flags are clear; with only the bitrate flag set and no such
  capability the decision is the full reconfiguration; with no flag set the
  instance and the configuration are returned as they were and the decision
  is none. For a bitrate within the range of the property the product does
  not wrap (\<open>kbit_to_bit\<close>).
\<close>

theorem reconfigure_tiers:
  "(init_param_updated self \<or> rc_param_updated self \<longrightarrow>
      check_reconfigure self klass config
        = (self\<lparr>init_param_updated := False, rc_param_updated := False,
                 bitrate_updated := False\<rparr>,
           config, GST_NV_ENCODER_RECONFIGURE_FULL))
   \<and> (\<not> init_param_updated self \<and> \<not> rc_param_updated self \<and> bitrate_updated self
        \<and> 0 <s dyn_bitrate_change (dev_caps klass) \<longrightarrow>
      check_reconfigure self klass config
        = (self\<lparr>bitrate_updated := False\<rparr>,
           config\<lparr>rcParams := (rcParams config)
              \<lparr>averageBitRate := bitrate self * 1024,
               maxBitRate := max_bitrate self * 1024\<rparr>\<rparr>,
           GST_NV_ENCODER_RECONFIGURE_BITRATE)
      \<and> \<not> init_param_updated (fst (check_reconfigure self klass config))
      \<and> \<not> rc_param_updated (fst (check_reconfigure self klass config))
      \<and> \<not> bitrate_updated (fst (check_reconfigure self klass config)))
   \<and> (\<not> init_param_updated self \<and> \<not> rc_param_updated self \<and> bitrate_updated self
        \<and> \<not> 0 <s dyn_bitrate_change (dev_caps klass) \<longrightarrow>
      check_reconfigure self klass config
        = (self\<lparr>bitrate_updated := False\<rparr>, config, GST_NV_ENCODER_RECONFIGURE_FULL))
   \<and> (\<not> init_param_updated self \<and> \<not> rc_param_updated self \<and> \<not> bitrate_updated self \<longrightarrow>
      check_reconfigure self klass config = (self, config, GST_NV_ENCODER_RECONFIGURE_NONE))"
  by (cases self) (simp add: check_reconfigure_def)

lemma written_flags:
  "init_param_updated instance_gop_written"
  "\<not> init_param_updated instance_bitrate_written"
  "\<not> rc_param_updated instance_bitrate_written"
  "bitrate_updated instance_bitrate_written"
  "bitrate instance_bitrate_written = 4000"
  "max_bitrate instance_bitrate_written = 0"
  "\<not> init_param_updated instance_with_qp_min_i"
  "\<not> rc_param_updated instance_with_qp_min_i"
  "\<not> bitrate_updated instance_with_qp_min_i"
  by (simp_all add: instance_gop_written_def instance_bitrate_written_def
      instance_with_qp_min_i_eq set_property_def update_defs encoder_init_def)

theorem reconfigure_tiers_witness:
  "snd (snd (check_reconfigure instance_gop_written example_class example_preset))
     = GST_NV_ENCODER_RECONFIGURE_FULL
   \<and> check_reconfigure instance_bitrate_written example_class example_preset
     = (instance_bitrate_written\<lparr>bitrate_updated := False\<rparr>,
        example_preset\<lparr>rcParams := (rcParams example_preset)
           \<lparr>averageBitRate := 4096000, maxBitRate := 0\<rparr>\<rparr>,
        GST_NV_ENCODER_RECONFIGURE_BITRATE)
   \<and> check_reconfigure instance_bitrate_written example_class_static example_preset
     = (instance_bitrate_written\<lparr>bitrate_updated := False\<rparr>, example_preset,
        GST_NV_ENCODER_RECONFIGURE_FULL)
   \<and> check_reconfigure instance_with_qp_min_i example_class example_preset
     = (instance_with_qp_min_i, example_preset, GST_NV_ENCODER_RECONFIGURE_NONE)"
proof -
  have dyn: "0 <s dyn_bitrate_change (dev_caps example_class)"
    "\<not> 0 <s dyn_bitrate_change (dev_caps example_class_static)"
    by (simp_all add: example_class_def example_class_static_def word_sless_alt)
  from reconfigure_tiers [of instance_gop_written example_class example_preset] written_flags(1)
  have a: "snd (snd (check_reconfigure instance_gop_written example_class example_preset))
     = GST_NV_ENCODER_RECONFIGURE_FULL"
    by simp
  from reconfigure_tiers [of instance_bitrate_written example_class example_preset] written_flags(2-6) dyn(1)
  have b: "check_reconfigure instance_bitrate_written example_class example_preset
     = (instance_bitrate_written\<lparr>bitrate_updated := False\<rparr>,
        example_preset\<lparr>rcParams := (rcParams example_preset)
           \<lparr>averageBitRate := 4096000, maxBitRate := 0\<rparr>\<rparr>,
        GST_NV_ENCODER_RECONFIGURE_BITRATE)"
    by simp
  from reconfigure_tiers [of instance_bitrate_written example_class_static example_preset]
    written_flags(2-4) dyn(2)
  have c: "check_reconfigure instance_bitrate_written example_class_static example_preset
     = (instance_bitrate_written\<lparr>bitrate_updated := False\<rparr>, example_preset,
        GST_NV_ENCODER_RECONFIGURE_FULL)"
    by simp
  from reconfigure_tiers [of instance_with_qp_min_i example_class example_preset] written_flags(7-9)
  have d: "check_reconfigure instance_with_qp_min_i example_class example_preset
     = (instance_with_qp_min_i, example_preset, GST_NV_ENCODER_RECONFIGURE_NONE)"
    by simp
  from a b c d show ?thesis by blast
qed

section \<open>Properties of the profile selection\<close>

lemma sorted_iteration_order: "sorted set_iteration_order"
  by (simp add: set_iteration_order_def)

lemma first_present_sorted:
  "sorted L \<Longrightarrow> D \<subseteq> set L \<Longrightarrow> D \<noteq> {} \<Longrightarrow> first_present L D = Some (Min D)"
proof (induction L)
  case Nil
  then show ?case by simp
next
  case (Cons x xs)
  from Cons.prems have fin: "finite D" using finite_subset by blast
  show ?case
  proof (cases "x \<in> D")
    case True
    from Cons.prems have "\<forall>y\<in>D. x \<le> y" by auto
    with True fin have "Min D = x" by (simp add: Min_eqI)
    with True show ?thesis by (simp add: first_present_def)
  next
    case False
    with Cons.prems have "D \<subseteq> set xs" by auto
    with Cons False show ?thesis by (simp add: first_present_def)
  qed
qed

lemma select_profile_first:
  "\<not> 1 <s ip \<Longrightarrow>
   select_profile NV_ENC_CODEC_PROFILE_AUTOSELECT_GUID profiles ip =
     (if Min profiles = ''baseline'' \<or> Min profiles = ''constrained-baseline''
        then NV_ENC_H264_PROFILE_BASELINE_GUID
      else if Min profiles = ''main'' then NV_ENC_H264_PROFILE_MAIN_GUID
      else if Min profiles = ''progressive-high'' then NV_ENC_H264_PROFILE_PROGRESSIVE_HIGH_GUID
      else if Min profiles = ''constrained-high'' then NV_ENC_H264_PROFILE_CONSTRAINED_HIGH_GUID
      else NV_ENC_CODEC_PROFILE_AUTOSELECT_GUID)"
  by (simp add: select_profile_def set_begin_def)

text \<open>
  Claim C2 says that, when the input is not 4:4:4 and \<^verbatim>\<open>frameIntervalP\<close> is
  not greater than 1, the profile is the first of main, high,
  progressive-high, constrained-high, constrained-baseline, baseline, 4:4:4
  that the remaining set contains. The source looks at the first element of
  the set instead. With \<open>baseline\<close> and \<open>main\<close> downstream, progressive 4:2:0
  input and the default properties, \<^verbatim>\<open>frameIntervalP\<close> is 1 and the source
  selects the baseline profile, where the claimed order gives main.
\<close>

theorem spec_priority_order_counterexample:
  "map_option profileGUID
     (built_config (set_format (encoder_init example_class) example_class
        ({''baseline'', ''main''}, False) example_info example_rc_mode_to_native
        (NV_ENC_SUCCESS, example_preset)))
     = Some NV_ENC_H264_PROFILE_BASELINE_GUID
   \<and> map_option frameIntervalP
     (built_config (set_format (encoder_init example_class) example_class
        ({''baseline'', ''main''}, False) example_info example_rc_mode_to_native
        (NV_ENC_SUCCESS, example_preset)))
     = Some 1
   \<and> spec_selected_profile {''baseline'', ''main''} = Some NV_ENC_H264_PROFILE_MAIN_GUID"
  by (simp add: built_config_def set_format_def negotiate_profiles_def remaining_profiles_def
      example_info_def gop_structure_def encoder_init_def Let_def select_profile_def
      set_begin_def word_sless_alt spec_selected_profile_def first_present_def
      spec_priority_order_def profile_guid_of_name_def)

text \<open>
  Claim C2 as amended. When the call builds a configuration, the input is not
  4:4:4 and \<^verbatim>\<open>frameIntervalP\<close> is not greater than 1, the profile depends only
  on the least element of the remaining set in its own order, the byte-wise
  lexicographic one: \<open>baseline\<close> or \<open>constrained-baseline\<close> gives the baseline
  profile, \<open>main\<close>, \<open>progressive-high\<close> and \<open>constrained-high\<close> give their own
  profile, and any other least element leaves the profile on auto-select. For
  a set of known profile names the least element is the first name of the
  order baseline, constrained-baseline, constrained-high, high, high-4:4:4,
  main, progressive-high that the set contains.
\<close>

theorem first_profile_follows_set_order:
  assumes "set_format self klass (D, pk) info f pq = (self', Inr (cfg, nts))"
    and "video_format info \<noteq> GST_VIDEO_FORMAT_Y444"
    and "\<not> 1 <s frameIntervalP cfg"
  shows "profileGUID cfg =
           (if Min (remaining_profiles info D) = ''baseline''
               \<or> Min (remaining_profiles info D) = ''constrained-baseline''
              then NV_ENC_H264_PROFILE_BASELINE_GUID
            else if Min (remaining_profiles info D) = ''main''
              then NV_ENC_H264_PROFILE_MAIN_GUID
            else if Min (remaining_profiles info D) = ''progressive-high''
              then NV_ENC_H264_PROFILE_PROGRESSIVE_HIGH_GUID
            else if Min (remaining_profiles info D) = ''constrained-high''
              then NV_ENC_H264_PROFILE_CONSTRAINED_HIGH_GUID
            else NV_ENC_CODEC_PROFILE_AUTOSELECT_GUID)
       \<and> (remaining_profiles info D \<subseteq> set set_iteration_order \<longrightarrow>
            first_present set_iteration_order (remaining_profiles info D)
              = Some (Min (remaining_profiles info D)))"
proof -
  from assms(1) obtain profiles sel bfr and config1 :: NV_ENC_CONFIG where
    n: "negotiate_profiles info (fst (D, pk)) = Inr (profiles, sel, bfr)"
    and c: "frameIntervalP cfg = frameIntervalP config1"
    and p: "profileGUID cfg = select_profile sel profiles (frameIntervalP config1)"
    by (elim set_format_InrD) blast
  from n have ne: "remaining_profiles info D \<noteq> {}"
    by (auto simp add: negotiate_profiles_def Let_def remaining_profiles_def split: if_splits)
  from negotiate_profiles_not_444 [OF assms(2) ne] n
  have "profiles = remaining_profiles info D" "sel = NV_ENC_CODEC_PROFILE_AUTOSELECT_GUID"
    by simp_all
  with p c assms(3) have first: "profileGUID cfg =
           (if Min (remaining_profiles info D) = ''baseline''
               \<or> Min (remaining_profiles info D) = ''constrained-baseline''
              then NV_ENC_H264_PROFILE_BASELINE_GUID
            else if Min (remaining_profiles info D) = ''main''
              then NV_ENC_H264_PROFILE_MAIN_GUID
            else if Min (remaining_profiles info D) = ''progressive-high''
              then NV_ENC_H264_PROFILE_PROGRESSIVE_HIGH_GUID
            else if Min (remaining_profiles info D) = ''constrained-high''
              then NV_ENC_H264_PROFILE_CONSTRAINED_HIGH_GUID
            else NV_ENC_CODEC_PROFILE_AUTOSELECT_GUID)"
    by (simp add: select_profile_first)
  from first_present_sorted [OF sorted_iteration_order _ ne] first
  show ?thesis by blast
qed

theorem first_profile_follows_set_order_witness:
  "\<exists>self' cfg nts.
     set_format (encoder_init example_class) example_class
       ({''main'', ''high'', ''constrained-high''}, False) example_info
       example_rc_mode_to_native (NV_ENC_SUCCESS, example_preset) = (self', Inr (cfg, nts))
     \<and> profileGUID cfg = NV_ENC_H264_PROFILE_CONSTRAINED_HIGH_GUID
     \<and> first_present set_iteration_order {''main'', ''high'', ''constrained-high''}
         = Some ''constrained-high''"
proof -
  let ?D = "{''main'', ''high'', ''constrained-high''}"
  have r: "remaining_profiles example_info ?D = ?D"
    by (simp add: remaining_profiles_def example_info_def)
  have neg: "negotiate_profiles example_info ?D
     = Inr (?D, NV_ENC_CODEC_PROFILE_AUTOSELECT_GUID, True)"
    by (simp add: negotiate_profiles_def example_info_def remaining_profiles_def)
  from set_format_InrI [OF neg] obtain s1 c1 n1 where e:
    "set_format (encoder_init example_class) example_class (?D, False) example_info
       example_rc_mode_to_native (NV_ENC_SUCCESS, example_preset) = (s1, Inr (c1, n1))"
    by blast
  have fmt: "video_format example_info \<noteq> GST_VIDEO_FORMAT_Y444"
    by (simp add: example_info_def)
  have "map_option frameIntervalP
      (built_config (set_format (encoder_init example_class) example_class (?D, False)
         example_info example_rc_mode_to_native (NV_ENC_SUCCESS, example_preset))) = Some 1"
    by (simp add: built_config_def set_format_def neg gop_structure_def encoder_init_def
        Let_def word_sless_alt)
  with e have ip: "\<not> 1 <s frameIntervalP c1"
    by (simp add: built_config_def)
  have m: "Min ?D = ''constrained-high''" by simp
  have sub: "?D \<subseteq> set set_iteration_order" by (simp add: set_iteration_order_def)
  from first_profile_follows_set_order [OF e fmt ip] r m sub
  have "profileGUID c1 = NV_ENC_H264_PROFILE_CONSTRAINED_HIGH_GUID
     \<and> first_present set_iteration_order ?D = Some ''constrained-high''"
    by simp
  with e show ?thesis by blast
qed

section \<open>Properties of the packager\<close>


















end
